theory Spec2Isabelle
  imports Main "HOL-Library.Sublist" "HOL-Library.AList"
begin

section \<open>The syntax tree read by the extractors\<close>

text \<open>
  The parser (\<^verbatim>\<open>acorn.parse\<close>, ECMAScript 2020, module mode) hands the extractors an
  ESTree. The embedding keeps one constructor per node kind whose fields the code reads,
  each with its \<^verbatim>\<open>start\<close> and \<^verbatim>\<open>end\<close> offsets first, and one constructor
  \<open>OtherNode\<close> for every other kind, holding the kind's tag and the children in the
  order in which the tree walker visits them.

  The \<^verbatim>\<open>value\<close> of a \<^verbatim>\<open>Literal\<close> node is a JavaScript primitive (or a
  \<^verbatim>\<open>RegExp\<close> object, given by its pattern and flags). The code copies such a
  value, tests it for truthiness and, as the key of a property, converts it to a
  string; it never computes with it. A number and a big integer are therefore held as
  their canonical decimal text (what \<^verbatim>\<open>String(v)\<close> gives), which identifies
  the value: zero is \<open>''0''\<close>.
\<close>

datatype litval =
    LString string
  | LNumber string
  | LBoolean bool
  | LNull
  | LRegExp string string
  | LBigInt string

datatype node =
    Identifier (nstart: nat) (nend: nat) string
  | Literal (nstart: nat) (nend: nat) litval
  | ThisExpression (nstart: nat) (nend: nat)
  | MemberExpression (nstart: nat) (nend: nat) node node bool
      \<comment> \<open>object, property, computed\<close>
  | CallExpression (nstart: nat) (nend: nat) node "node list"
      \<comment> \<open>callee, arguments\<close>
  | NewExpression (nstart: nat) (nend: nat) node "node list"
  | AwaitExpression (nstart: nat) (nend: nat) node
  | FunctionExpression (nstart: nat) (nend: nat) "node option" "node list" node bool
      \<comment> \<open>id, params, body, async\<close>
  | ArrowFunctionExpression (nstart: nat) (nend: nat) "node list" node bool
      \<comment> \<open>params, body, async\<close>
  | FunctionDeclaration (nstart: nat) (nend: nat) "node option" "node list" node bool
      \<comment> \<open>id, params, body, async\<close>
  | ObjectExpression (nstart: nat) (nend: nat) "node list"
      \<comment> \<open>properties: \<open>Property\<close> and \<open>SpreadElement\<close> nodes\<close>
  | Property (nstart: nat) (nend: nat) node node bool
      \<comment> \<open>key, value, computed\<close>
  | SpreadElement (nstart: nat) (nend: nat) node
  | ArrayExpression (nstart: nat) (nend: nat) "node option list"
      \<comment> \<open>elements; a hole of the array literal is \<^verbatim>\<open>null\<close>\<close>
  | TemplateLiteral (nstart: nat) (nend: nat) "string list" "node list"
      \<comment> \<open>the \<^verbatim>\<open>value.raw\<close> of each quasi, expressions\<close>
  | BlockStatement (nstart: nat) (nend: nat) "node list"
  | ExpressionStatement (nstart: nat) (nend: nat) node
  | Program (nstart: nat) (nend: nat) "node list"
  | VariableDeclaration (nstart: nat) (nend: nat) string "node list"
      \<comment> \<open>kind, declarations\<close>
  | VariableDeclarator (nstart: nat) (nend: nat) node "node option"
      \<comment> \<open>id, init\<close>
  | ExportNamedDeclaration (nstart: nat) (nend: nat) "node option"
      \<comment> \<open>declaration\<close>
  | ExportDefaultDeclaration (nstart: nat) (nend: nat) node
      \<comment> \<open>declaration\<close>
  | OtherNode (nstart: nat) (nend: nat) string "node list"
      \<comment> \<open>any other kind: its tag, its children in walk order\<close>

text \<open>The \<^verbatim>\<open>type\<close> tag of a node.\<close>

definition node_type :: "node \<Rightarrow> string" where
  "node_type n = (case n of
      Identifier _ _ _ \<Rightarrow> ''Identifier''
    | Literal _ _ _ \<Rightarrow> ''Literal''
    | ThisExpression _ _ \<Rightarrow> ''ThisExpression''
    | MemberExpression _ _ _ _ _ \<Rightarrow> ''MemberExpression''
    | CallExpression _ _ _ _ \<Rightarrow> ''CallExpression''
    | NewExpression _ _ _ _ \<Rightarrow> ''NewExpression''
    | AwaitExpression _ _ _ \<Rightarrow> ''AwaitExpression''
    | FunctionExpression _ _ _ _ _ _ \<Rightarrow> ''FunctionExpression''
    | ArrowFunctionExpression _ _ _ _ _ \<Rightarrow> ''ArrowFunctionExpression''
    | FunctionDeclaration _ _ _ _ _ _ \<Rightarrow> ''FunctionDeclaration''
    | ObjectExpression _ _ _ \<Rightarrow> ''ObjectExpression''
    | Property _ _ _ _ _ \<Rightarrow> ''Property''
    | SpreadElement _ _ _ \<Rightarrow> ''SpreadElement''
    | ArrayExpression _ _ _ \<Rightarrow> ''ArrayExpression''
    | TemplateLiteral _ _ _ _ \<Rightarrow> ''TemplateLiteral''
    | BlockStatement _ _ _ \<Rightarrow> ''BlockStatement''
    | ExpressionStatement _ _ _ \<Rightarrow> ''ExpressionStatement''
    | Program _ _ _ \<Rightarrow> ''Program''
    | VariableDeclaration _ _ _ _ \<Rightarrow> ''VariableDeclaration''
    | VariableDeclarator _ _ _ _ \<Rightarrow> ''VariableDeclarator''
    | ExportNamedDeclaration _ _ _ \<Rightarrow> ''ExportNamedDeclaration''
    | ExportDefaultDeclaration _ _ _ \<Rightarrow> ''ExportDefaultDeclaration''
    | OtherNode _ _ k _ \<Rightarrow> k)"

text \<open>
  Reading \<^verbatim>\<open>.name\<close> of a node: only an identifier has one; on any other node the
  read gives \<^verbatim>\<open>undefined\<close>.
\<close>

definition node_name :: "node \<Rightarrow> string option" where
  "node_name n = (case n of Identifier _ _ x \<Rightarrow> Some x | _ \<Rightarrow> None)"

text \<open>\<^verbatim>\<open>undefined\<close> spliced into a string prints as the word itself.\<close>

definition name_text :: "node \<Rightarrow> string" where
  "name_text n = (case node_name n of Some x \<Rightarrow> x | None \<Rightarrow> ''undefined'')"

definition is_call :: "node \<Rightarrow> bool" where
  "is_call n = (case n of CallExpression _ _ _ _ \<Rightarrow> True | _ \<Rightarrow> False)"

text \<open>
  Failures. A read of a property of \<^verbatim>\<open>null\<close> or \<^verbatim>\<open>undefined\<close> raises a
  \<^verbatim>\<open>TypeError\<close>; a failed \<^verbatim>\<open>assert\<close> raises an \<^verbatim>\<open>AssertionError\<close>;
  \<^verbatim>\<open>ParseLimitationsError\<close> is the class of the source, with its message and
  \<^verbatim>\<open>atChar\<close>.
\<close>

datatype error = TypeError | AssertionError | ParseLimitationsError string nat

section \<open>Call-chain resolution\<close>

text \<open>
  \<^verbatim>\<open>_traverse\<close> of \<^verbatim>\<open>parseCallee\<close>: the thrown \<^verbatim>\<open>IgnoreMe\<close> is \<open>None\<close>, which
  \<^verbatim>\<open>parseCallee\<close> turns into \<^verbatim>\<open>null\<close>.
\<close>

fun traverse :: "node \<Rightarrow> string option" where
  "traverse (Identifier _ _ x) = Some x"
| "traverse (MemberExpression _ _ obj prop _) =
     (case traverse obj of None \<Rightarrow> None | Some s \<Rightarrow> Some (s @ ''.'' @ name_text prop))"
| "traverse (CallExpression _ _ callee _) =
     (case traverse callee of None \<Rightarrow> None | Some s \<Rightarrow> Some (s @ ''()''))"
| "traverse (ThisExpression _ _) = Some ''this''"
| "traverse _ = None"

text \<open>
  \<^verbatim>\<open>parseCallee\<close> is only ever applied to call expressions (its assertion); on a call
  it resolves the callee.
\<close>

definition parseCallee :: "node \<Rightarrow> string option" where
  "parseCallee n = (case n of CallExpression _ _ callee _ \<Rightarrow> traverse callee | _ \<Rightarrow> None)"

section \<open>The tree walker\<close>

text \<open>
  \<^verbatim>\<open>walk.ancestor(root, {CallExpression: f})\<close> of the acorn-walk library descends from
  \<open>root\<close> with the library's base walker. Entering a node it pushes the node on the
  array of ancestors, walks the children the base walker names for that kind, in order,
  then calls \<open>f\<close> on the node if it is a call expression, passing the array of
  ancestors (outermost first, the node itself last), and pops the node. The callback of a
  nested call therefore runs before the callback of the call around it.

  \<open>children\<close> is the base walker's table: the key of a property and the property of a
  member access are walked only when computed, holes of an array literal are skipped, the
  quasis of a template literal have no children.
\<close>

definition children :: "node \<Rightarrow> node list" where
  "children n = (case n of
      MemberExpression _ _ obj prop computed \<Rightarrow> obj # (if computed then [prop] else [])
    | CallExpression _ _ callee args \<Rightarrow> callee # args
    | NewExpression _ _ callee args \<Rightarrow> callee # args
    | AwaitExpression _ _ arg \<Rightarrow> [arg]
    | FunctionExpression _ _ ident params body _ \<Rightarrow> (case ident of None \<Rightarrow> [] | Some i \<Rightarrow> [i]) @ params @ [body]
    | ArrowFunctionExpression _ _ params body _ \<Rightarrow> params @ [body]
    | FunctionDeclaration _ _ ident params body _ \<Rightarrow> (case ident of None \<Rightarrow> [] | Some i \<Rightarrow> [i]) @ params @ [body]
    | ObjectExpression _ _ props \<Rightarrow> props
    | Property _ _ key val computed \<Rightarrow> (if computed then [key] else []) @ [val]
    | SpreadElement _ _ arg \<Rightarrow> [arg]
    | ArrayExpression _ _ elts \<Rightarrow> concat (map (\<lambda>e. case e of None \<Rightarrow> [] | Some x \<Rightarrow> [x]) elts)
    | TemplateLiteral _ _ _ exprs \<Rightarrow> exprs
    | BlockStatement _ _ body \<Rightarrow> body
    | ExpressionStatement _ _ e \<Rightarrow> [e]
    | Program _ _ body \<Rightarrow> body
    | VariableDeclaration _ _ _ decls \<Rightarrow> decls
    | VariableDeclarator _ _ ident init \<Rightarrow> ident # (case init of None \<Rightarrow> [] | Some i \<Rightarrow> [i])
    | ExportNamedDeclaration _ _ decl \<Rightarrow> (case decl of None \<Rightarrow> [] | Some d \<Rightarrow> [d])
    | ExportDefaultDeclaration _ _ decl \<Rightarrow> [decl]
    | OtherNode _ _ _ cs \<Rightarrow> cs
    | _ \<Rightarrow> [])"

lemma size_option_elt: "Some x \<in> set es \<Longrightarrow> size x < Suc (size_list (size_option size) es)"
  by (induction es) auto

lemma size_list_elt: "x \<in> set xs \<Longrightarrow> size x < Suc (size_list size xs)"
  by (induction xs) auto

lemma present_elt:
  "c \<in> set (concat (map (\<lambda>e. case e of None \<Rightarrow> [] | Some x \<Rightarrow> [x]) es)) \<Longrightarrow> Some c \<in> set es"
  by (induction es) (auto split: option.splits)

lemma children_smaller:
  assumes "c \<in> set (children n)"
  shows "size c < size n"
proof (cases n)
  case (ArrayExpression s e es)
  with assms have "Some c \<in> set es"
    by (simp add: children_def present_elt)
  with ArrayExpression show ?thesis
    using size_option_elt [of c es] by simp
qed (use assms in \<open>auto simp: children_def dest: size_list_elt split: if_splits option.splits\<close>)

text \<open>
  The visits of one walk, in the order of the callbacks: each visited call expression with
  the array of ancestors it is given. \<open>anc\<close> is the array on entry.
\<close>

function walk :: "node list \<Rightarrow> node \<Rightarrow> (node \<times> node list) list" where
  "walk anc n =
     concat (map (walk (anc @ [n])) (children n)) @ (if is_call n then [(n, anc @ [n])] else [])"
  by pat_completeness auto
termination
  by (relation "measure (\<lambda>(anc, n). size n)") (auto simp: children_smaller)

declare walk.simps [simp del]

text \<open>
  A callback may throw, which ends the walk; the walk itself has no effect and cannot
  fail, so running the callbacks over the visits in order, stopping at the first failure,
  is the same computation. \<open>st\<close> is what the callbacks have accumulated.
\<close>

fun run_visits ::
  "(node \<Rightarrow> node list \<Rightarrow> 's \<Rightarrow> error + 's) \<Rightarrow> (node \<times> node list) list \<Rightarrow> 's \<Rightarrow> error + 's" where
  "run_visits f [] st = Inr st"
| "run_visits f ((n, anc) # vs) st =
     (case f n anc st of Inl e \<Rightarrow> Inl e | Inr st' \<Rightarrow> run_visits f vs st')"

section \<open>Values and the literal evaluator\<close>

text \<open>
  What \<^verbatim>\<open>maybeGetLiteralValue\<close> builds: a primitive, a plain object (its properties
  in insertion order; an assignment to a key that is present replaces the value in
  place) or an array. The order in which JavaScript enumerates keys that look like
  array indices, and the special key \<^verbatim>\<open>__proto__\<close>, are not modelled.
\<close>

datatype jsvalue = Prim litval | Obj "(string \<times> jsvalue) list" | Arr "jsvalue list"

text \<open>JavaScript truthiness, which the code's \<^verbatim>\<open>if (value)\<close> and \<^verbatim>\<open>!key\<close> test.\<close>

definition truthy :: "litval \<Rightarrow> bool" where
  "truthy v = (case v of
      LString s \<Rightarrow> s \<noteq> []
    | LNumber d \<Rightarrow> d \<noteq> ''0''
    | LBoolean b \<Rightarrow> b
    | LNull \<Rightarrow> False
    | LRegExp _ _ \<Rightarrow> True
    | LBigInt d \<Rightarrow> d \<noteq> ''0'')"

definition value_truthy :: "jsvalue \<Rightarrow> bool" where
  "value_truthy v = (case v of Prim l \<Rightarrow> truthy l | _ \<Rightarrow> True)"

text \<open>The string a primitive becomes when it is used as a property key.\<close>

definition toPropertyKey :: "litval \<Rightarrow> string" where
  "toPropertyKey v = (case v of
      LString s \<Rightarrow> s
    | LNumber d \<Rightarrow> d
    | LBoolean b \<Rightarrow> (if b then ''true'' else ''false'')
    | LNull \<Rightarrow> ''null''
    | LRegExp p f \<Rightarrow> ''/'' @ p @ ''/'' @ f
    | LBigInt d \<Rightarrow> d)"

text \<open>
  \<^verbatim>\<open>getPropertyKey\<close>: \<^verbatim>\<open>undefined\<close> (\<open>None\<close>) for a node with no key, as a spread
  element, and for a key that is neither a literal nor an identifier. Whether the key is
  computed is not looked at.
\<close>

definition getPropertyKey :: "node \<Rightarrow> litval option" where
  "getPropertyKey propNode = (case propNode of
      Property _ _ key _ _ \<Rightarrow>
        (case key of
           Literal _ _ v \<Rightarrow> Some v
         | Identifier _ _ x \<Rightarrow> Some (LString x)
         | _ \<Rightarrow> None)
    | _ \<Rightarrow> None)"

text \<open>
  \<^verbatim>\<open>maybeGetLiteralValue\<close> with its two loops. \<open>Inr None\<close> is the \<^verbatim>\<open>undefined\<close> it
  returns; a hole of an array literal is \<^verbatim>\<open>null\<close>, whose \<^verbatim>\<open>type\<close> cannot be read.
\<close>

fun maybeGetLiteralValue :: "node \<Rightarrow> error + jsvalue option"
  and object_loop :: "node list \<Rightarrow> (string \<times> jsvalue) list \<Rightarrow> error + jsvalue option"
  and array_loop :: "node option list \<Rightarrow> jsvalue list \<Rightarrow> error + jsvalue option" where
  "maybeGetLiteralValue (Literal _ _ v) = Inr (Some (Prim v))"
| "maybeGetLiteralValue (ObjectExpression _ _ props) = object_loop props []"
| "maybeGetLiteralValue (ArrayExpression _ _ elts) = array_loop elts []"
| "maybeGetLiteralValue _ = Inr None"
| "object_loop [] output = Inr (Some (Obj output))"
| "object_loop (Property s e key val c # props) output =
     (case getPropertyKey (Property s e key val c) of
        None \<Rightarrow> Inr None
      | Some k \<Rightarrow>
          if \<not> truthy k then Inr None
          else (case maybeGetLiteralValue val of
                  Inl err \<Rightarrow> Inl err
                | Inr None \<Rightarrow> Inr None
                | Inr (Some v) \<Rightarrow>
                    if \<not> value_truthy v then Inr None
                    else object_loop props (AList.update (toPropertyKey k) v output)))"
| "object_loop (_ # props) output = Inr None"
| "array_loop [] output = Inr (Some (Arr output))"
| "array_loop (None # elts) output = Inl TypeError"
| "array_loop (Some elt # elts) output =
     (case maybeGetLiteralValue elt of
        Inl err \<Rightarrow> Inl err
      | Inr None \<Rightarrow> Inr None
      | Inr (Some v) \<Rightarrow>
          if \<not> value_truthy v then Inr None else array_loop elts (output @ [v]))"

section \<open>The call-site collector\<close>

text \<open>
  The records of \<^verbatim>\<open>findFuncCalls\<close>. A key the source adds only under a condition
  (\<^verbatim>\<open>literalArguments\<close>, \<^verbatim>\<open>apiSyncDisabled\<close>, \<^verbatim>\<open>apiWaitAfter\<close>, \<^verbatim>\<open>errors\<close>)
  is absent exactly when its field here is empty or \<open>False\<close>: the source adds the two
  maps only when they are not empty, and the flags only when they are true.
\<close>

record argument =
  arg_type :: string
  arg_start :: nat
  arg_end :: nat

record deferred_error =
  err_message :: string
  err_loc :: nat

record call_site =
  call_name :: string
  call_start :: nat
  call_rootStart :: nat
  call_end :: nat
  call_arguments :: "argument list"
  call_await :: bool
  call_literalArguments :: "(nat \<times> jsvalue) list"
  call_apiSyncDisabled :: bool
  call_apiWaitAfter :: bool
  call_errors :: "deferred_error list"

text \<open>
  The loop over the arguments that fills \<^verbatim>\<open>literalArguments\<close>: index \<open>i\<close> gets the
  value of the argument when that value is truthy.
\<close>

fun literal_arguments :: "nat \<Rightarrow> node list \<Rightarrow> error + (nat \<times> jsvalue) list" where
  "literal_arguments i [] = Inr []"
| "literal_arguments i (a # as) =
     (case maybeGetLiteralValue a of
        Inl err \<Rightarrow> Inl err
      | Inr value \<Rightarrow>
          (case literal_arguments (Suc i) as of
             Inl err \<Rightarrow> Inl err
           | Inr rest \<Rightarrow>
               Inr ((case value of
                       None \<Rightarrow> []
                     | Some v \<Rightarrow> if value_truthy v then [(i, v)] else []) @ rest)))"

text \<open>
  \<^verbatim>\<open>assertPropertyNodeIsLiteralBooleanAndExtract\<close>, applied to a property: the
  boolean of a literal boolean value, else \<^verbatim>\<open>null\<close> (\<open>None\<close>) and one more entry of
  \<open>errors\<close>, located at the start of the value.
\<close>

definition expected_boolean_message :: "node \<Rightarrow> string" where
  "expected_boolean_message key =
     [CHR 0x22] @ name_text key @ [CHR 0x22] @
     '' property is expected to have literal Boolean value (true/false)''"

definition assertPropertyNodeIsLiteralBooleanAndExtract ::
  "node \<Rightarrow> deferred_error list \<Rightarrow> bool option \<times> deferred_error list" where
  "assertPropertyNodeIsLiteralBooleanAndExtract n errors = (case n of
      Property _ _ key val _ \<Rightarrow>
        (case val of
           Literal _ _ (LBoolean b) \<Rightarrow> (Some b, errors)
         | _ \<Rightarrow>
             (None, errors @ [\<lparr>err_message = expected_boolean_message key, err_loc = nstart val\<rparr>]))
    | _ \<Rightarrow> (None, errors))"

text \<open>
  One round of the loop over the properties of the object given to \<^verbatim>\<open>api\<close>; the
  state is \<open>(apiSyncDisabled, apiWaitAfter, errors)\<close>.
\<close>

definition api_property :: "node \<Rightarrow> bool \<times> bool \<times> deferred_error list \<Rightarrow> bool \<times> bool \<times> deferred_error list" where
  "api_property argProp st = (case st of (apiSyncDisabled, apiWaitAfter, errors) \<Rightarrow>
     (case (if getPropertyKey argProp = Some (LString ''sync'')
            then (case assertPropertyNodeIsLiteralBooleanAndExtract argProp errors of
                    (r, errors') \<Rightarrow> (if r = Some False then True else apiSyncDisabled, errors'))
            else (apiSyncDisabled, errors)) of
        (apiSyncDisabled', errors1) \<Rightarrow>
          (case (if getPropertyKey argProp = Some (LString ''waitAfter'')
                 then (case assertPropertyNodeIsLiteralBooleanAndExtract argProp errors1 of
                         (r, errors') \<Rightarrow> (if r = Some True then True else apiWaitAfter, errors'))
                 else (apiWaitAfter, errors1)) of
             (apiWaitAfter', errors2) \<Rightarrow> (apiSyncDisabled', apiWaitAfter', errors2))))"

text \<open>
  The special handling of \<^verbatim>\<open>api({ sync: ?? }).regionCall(...)\<close>, for a resolved name
  other than \<^verbatim>\<open>api\<close>. Under a name that starts with \<^verbatim>\<open>api.\<close> the code reads
  \<^verbatim>\<open>node.callee.object.type\<close>; only a member access has an \<^verbatim>\<open>object\<close>.
\<close>

definition api_annotations :: "string \<Rightarrow> node \<Rightarrow> error + bool \<times> bool \<times> deferred_error list" where
  "api_annotations dottedName callee =
     (if prefix ''api.'' dottedName then
        (case callee of
           MemberExpression _ _ obj _ _ \<Rightarrow>
             Inr (case obj of
                    CallExpression _ _ _ apiArguments \<Rightarrow>
                      (case apiArguments of
                         [] \<Rightarrow> (False, False, [])
                       | first # _ \<Rightarrow>
                           (case first of
                              ObjectExpression _ _ props \<Rightarrow>
                                fold api_property props (False, False, [])
                            | _ \<Rightarrow> (False, False, [])))
                  | _ \<Rightarrow> (False, False, []))
         | _ \<Rightarrow> Inl TypeError)
      else Inr (False, False, []))"

text \<open>The callback of \<^verbatim>\<open>findFuncCalls\<close>; \<open>calls\<close> is the array it pushes to.\<close>

definition call_visitor :: "node \<Rightarrow> node list \<Rightarrow> call_site list \<Rightarrow> error + call_site list" where
  "call_visitor n ancestors calls = (case n of
      CallExpression s e callee args \<Rightarrow>
        (let parent = (if length ancestors > 1 then Some (ancestors ! (length ancestors - 2)) else None)
         in case parseCallee n of
              None \<Rightarrow> Inr calls
            | Some dottedName \<Rightarrow>
                if dottedName = [] then Inr calls
                else (case literal_arguments 0 args of
                        Inl err \<Rightarrow> Inl err
                      | Inr literalArguments \<Rightarrow>
                          if dottedName = ''api'' then Inr calls
                          else (case api_annotations dottedName callee of
                                  Inl err \<Rightarrow> Inl err
                                | Inr (apiSyncDisabled, apiWaitAfter, errors) \<Rightarrow>
                                    Inr (calls @
                                      [\<lparr>call_name = dottedName,
                                        call_start = (case callee of
                                                        MemberExpression _ _ _ prop _ \<Rightarrow> nstart prop
                                                      | _ \<Rightarrow> s),
                                        call_rootStart = s,
                                        call_end = e,
                                        call_arguments =
                                          map (\<lambda>a. \<lparr>arg_type = node_type a, arg_start = nstart a,
                                                     arg_end = nend a\<rparr>) args,
                                        call_await = (case parent of
                                                        Some (AwaitExpression _ _ _) \<Rightarrow> True
                                                      | _ \<Rightarrow> False),
                                        call_literalArguments = literalArguments,
                                        call_apiSyncDisabled = apiSyncDisabled,
                                        call_apiWaitAfter = apiWaitAfter,
                                        call_errors = errors\<rparr>]))))
    | _ \<Rightarrow> Inr calls)"

definition findFuncCalls :: "node \<Rightarrow> error + call_site list" where
  "findFuncCalls ast = run_visits call_visitor (walk [] ast) []"

section \<open>Tests and hooks\<close>

definition isTestIdentifier :: "string \<Rightarrow> bool" where
  "isTestIdentifier ident = (ident = ''it'' \<or> prefix ''it.'' ident)"

definition isDescribeIdentifier :: "string \<Rightarrow> bool" where
  "isDescribeIdentifier ident = (ident = ''describe'' \<or> prefix ''describe.'' ident)"

definition isTestOrDescribeIdentifier :: "string \<Rightarrow> bool" where
  "isTestOrDescribeIdentifier ident = (isTestIdentifier ident \<or> isDescribeIdentifier ident)"

definition isSkip :: "string \<Rightarrow> bool" where
  "isSkip ident = suffix ''.skip'' ident"

definition isIosOnly :: "string \<Rightarrow> bool" where
  "isIosOnly ident = (suffix ''.iosOnly'' ident \<or> suffix ''.ios'' ident)"

definition isAndroidOnly :: "string \<Rightarrow> bool" where
  "isAndroidOnly ident = (suffix ''.androidOnly'' ident \<or> suffix ''.android'' ident)"

definition isOnly :: "string \<Rightarrow> bool" where
  "isOnly ident = suffix ''.only'' ident"

definition SUPPORTED_HOOKS :: "string list" where
  "SUPPORTED_HOOKS = [''beforeAll'', ''beforeEach'', ''afterAll'', ''afterEach'']"

text \<open>\<^verbatim>\<open>interleaveArray\<close> of \<^verbatim>\<open>utils.js\<close>: \<open>[a1, a2, a3], [b1, b2] => [a1, b1, a2, b2, a3]\<close>.\<close>

fun interleaveArray :: "'a list \<Rightarrow> 'a list \<Rightarrow> 'a list" where
  "interleaveArray [] b = b"
| "interleaveArray a [] = a"
| "interleaveArray (x # a) (y # b) = x # y # interleaveArray a b"

text \<open>
  \<^verbatim>\<open>inferTestName\<close> reads the \<^verbatim>\<open>type\<close> of the first argument of the call, which
  fails when there is none. The name of a literal is its value, whatever its type.
\<close>

definition inferTestName :: "node \<Rightarrow> error + litval" where
  "inferTestName testCallNode = (case testCallNode of
      CallExpression _ _ _ args \<Rightarrow>
        (case args of
           [] \<Rightarrow> Inl TypeError
         | n # _ \<Rightarrow>
             Inr (case n of
                    Literal _ _ v \<Rightarrow> v
                  | TemplateLiteral _ _ quasis exprs \<Rightarrow>
                      LString (concat (interleaveArray quasis
                        (map (\<lambda>i. ''${'' @ name_text i @ ''}'') exprs)))
                  | Identifier _ _ x \<Rightarrow> LString (''${'' @ x @ ''}'')
                  | _ \<Rightarrow> LString (''[Unparseable: '' @ node_type n @ '']'')))
    | _ \<Rightarrow> Inl TypeError)"

text \<open>
  The records of \<^verbatim>\<open>findTests\<close>. The flags \<^verbatim>\<open>skip\<close>, \<^verbatim>\<open>only\<close>, \<^verbatim>\<open>iosOnly\<close> and
  \<^verbatim>\<open>androidOnly\<close> are keys that are either absent or \<^verbatim>\<open>true\<close>: a field is \<open>True\<close>
  when the key is there. \<^verbatim>\<open>async\<close> is read off the function node and is
  \<^verbatim>\<open>undefined\<close> (\<open>None\<close>) when that node is no function. A test and a hook are
  objects of one shape; the object pushed for a hook has none of the four flags.
\<close>

record scope_frame =
  sf_name :: litval
  sf_func :: string
  sf_start :: nat
  sf_end :: nat
  sf_skip :: bool
  sf_only :: bool
  sf_iosOnly :: bool
  sf_androidOnly :: bool

record test_case =
  tc_scope :: "scope_frame list"
  tc_start :: nat
  tc_end :: nat
  tc_async :: "bool option"
  tc_funcStart :: nat
  tc_funcEnd :: nat
  tc_calls :: "call_site list"
  tc_skip :: bool
  tc_only :: bool
  tc_iosOnly :: bool
  tc_androidOnly :: bool

record tests_and_hooks =
  tests :: "test_case list"
  hooks :: "(string \<times> test_case list) list"

definition node_async :: "node \<Rightarrow> bool option" where
  "node_async n = (case n of
      FunctionExpression _ _ _ _ _ a \<Rightarrow> Some a
    | ArrowFunctionExpression _ _ _ _ a \<Rightarrow> Some a
    | FunctionDeclaration _ _ _ _ _ a \<Rightarrow> Some a
    | _ \<Rightarrow> None)"

text \<open>
  \<^verbatim>\<open>scopeNodes\<close>: the ancestors that are calls, each with its resolved name, kept when
  the name is there and of the \<^verbatim>\<open>it\<close> or \<^verbatim>\<open>describe\<close> family.
\<close>

definition scopeNodes :: "node list \<Rightarrow> (node \<times> string) list" where
  "scopeNodes ancestors =
     filter (\<lambda>(n, dotted). dotted \<noteq> [] \<and> isTestOrDescribeIdentifier dotted)
       (concat (map (\<lambda>n. case parseCallee n of None \<Rightarrow> [] | Some dotted \<Rightarrow> [(n, dotted)])
          (filter is_call ancestors)))"

fun scope_of :: "(node \<times> string) list \<Rightarrow> error + scope_frame list" where
  "scope_of [] = Inr []"
| "scope_of ((n, dotted) # os) =
     (case inferTestName n of
        Inl err \<Rightarrow> Inl err
      | Inr label \<Rightarrow>
          (case scope_of os of
             Inl err \<Rightarrow> Inl err
           | Inr frames \<Rightarrow>
               Inr (\<lparr>sf_name = label, sf_func = dotted, sf_start = nstart n, sf_end = nend n,
                     sf_skip = isSkip dotted, sf_only = isOnly dotted,
                     sf_iosOnly = isIosOnly dotted, sf_androidOnly = isAndroidOnly dotted\<rparr>
                    # frames)))"

definition is_function_literal :: "node \<Rightarrow> bool" where
  "is_function_literal n = (case n of
      FunctionExpression _ _ _ _ _ _ \<Rightarrow> True
    | ArrowFunctionExpression _ _ _ _ _ \<Rightarrow> True
    | _ \<Rightarrow> False)"

definition push_hook :: "string \<Rightarrow> test_case \<Rightarrow> (string \<times> test_case list) list \<Rightarrow> (string \<times> test_case list) list" where
  "push_hook hook h hs = map (\<lambda>(k, v). if k = hook then (k, v @ [h]) else (k, v)) hs"

text \<open>
  The callback of \<^verbatim>\<open>findTests\<close> returns early, pushes one test, pushes one hook
  under its name, or throws. \<open>visit_call\<close> is its body up to the push. In the test
  branch \<^verbatim>\<open>funcNode\<close> is \<^verbatim>\<open>node.arguments[1]\<close>, \<^verbatim>\<open>undefined\<close> when the call has
  fewer than two arguments; reading \<^verbatim>\<open>funcNode.async\<close> then fails.
\<close>

datatype outcome = Ignored | NewTest test_case | NewHook string test_case

definition visit_call :: "node \<Rightarrow> node list \<Rightarrow> error + outcome" where
  "visit_call n ancestors = (case n of
      CallExpression s e callee args \<Rightarrow>
        (case parseCallee n of
           None \<Rightarrow> Inr Ignored
         | Some dottedName \<Rightarrow>
             if dottedName = [] then Inr Ignored
             else if isTestIdentifier dottedName then
               (case scope_of (scopeNodes ancestors) of
                  Inl err \<Rightarrow> Inl err
                | Inr scope \<Rightarrow>
                    (case drop 1 args of
                       [] \<Rightarrow> Inl TypeError
                     | funcNode # _ \<Rightarrow>
                         (case findFuncCalls funcNode of
                            Inl err \<Rightarrow> Inl err
                          | Inr calls \<Rightarrow>
                              Inr (NewTest
                                \<lparr>tc_scope = scope, tc_start = s, tc_end = e,
                                  tc_async = node_async funcNode,
                                  tc_funcStart = nstart funcNode, tc_funcEnd = nend funcNode,
                                  tc_calls = calls,
                                  tc_skip = list_ex sf_skip scope,
                                  tc_only = list_ex sf_only scope,
                                  tc_iosOnly = list_ex sf_iosOnly scope,
                                  tc_androidOnly = list_ex sf_androidOnly scope\<rparr>))))
             else if dottedName \<in> set SUPPORTED_HOOKS then
               (case args of
                  [funcNode] \<Rightarrow>
                    if \<not> is_function_literal funcNode then Inr Ignored
                    else if list_ex (\<lambda>(n, dotted). isTestIdentifier dotted) (scopeNodes ancestors)
                    then Inr Ignored
                    else (case scope_of (scopeNodes ancestors) of
                            Inl err \<Rightarrow> Inl err
                          | Inr scope \<Rightarrow>
                              (case findFuncCalls funcNode of
                                 Inl err \<Rightarrow> Inl err
                               | Inr calls \<Rightarrow>
                                   Inr (NewHook dottedName
                                     \<lparr>tc_scope = scope, tc_start = s, tc_end = e,
                                       tc_async = node_async funcNode,
                                       tc_funcStart = nstart funcNode, tc_funcEnd = nend funcNode,
                                       tc_calls = calls,
                                       tc_skip = False, tc_only = False,
                                       tc_iosOnly = False, tc_androidOnly = False\<rparr>)))
                | _ \<Rightarrow> Inr Ignored)
             else Inr Ignored)
    | _ \<Rightarrow> Inr Ignored)"

definition test_visitor :: "node \<Rightarrow> node list \<Rightarrow> tests_and_hooks \<Rightarrow> error + tests_and_hooks" where
  "test_visitor n ancestors st = (case visit_call n ancestors of
      Inl err \<Rightarrow> Inl err
    | Inr Ignored \<Rightarrow> Inr st
    | Inr (NewTest t) \<Rightarrow> Inr (st\<lparr>tests := tests st @ [t]\<rparr>)
    | Inr (NewHook hook h) \<Rightarrow> Inr (st\<lparr>hooks := push_hook hook h (hooks st)\<rparr>))"

text \<open>\<^verbatim>\<open>findTests\<close>; \<open>None\<close> is the \<^verbatim>\<open>null\<close> the reader returns for a script with a shebang.\<close>

definition findTests :: "node option \<Rightarrow> error + tests_and_hooks" where
  "findTests ast =
     (let st = \<lparr>tests = [], hooks = map (\<lambda>hook. (hook, [])) SUPPORTED_HOOKS\<rparr>
      in case ast of
           None \<Rightarrow> Inr st
         | Some root \<Rightarrow> run_visits test_visitor (walk [] root) st)"

section \<open>Exported functions\<close>

record exported_function =
  ef_name :: "string option"
  ef_start :: nat
  ef_end :: nat
  ef_exportStart :: nat
  ef_exportEnd :: nat
  ef_funcStart :: nat
  ef_funcEnd :: nat
  ef_async :: bool
  ef_calls :: "call_site list"

text \<open>
  \<^verbatim>\<open>registerExportedFuncNode\<close>, given a function declaration. The name is
  \<^verbatim>\<open>node.id.name\<close>.
\<close>

definition registerExportedFuncNode ::
  "node \<Rightarrow> nat \<Rightarrow> nat \<Rightarrow> nat \<Rightarrow> nat \<Rightarrow> exported_function list \<Rightarrow> error + exported_function list" where
  "registerExportedFuncNode n exportStart exportEnd start end exportedFunctions = (case n of
      FunctionDeclaration _ _ ident _ body async \<Rightarrow>
        (case ident of
           None \<Rightarrow> Inl TypeError
         | Some i \<Rightarrow>
             (case findFuncCalls body of
                Inl err \<Rightarrow> Inl err
              | Inr calls \<Rightarrow>
                  Inr (exportedFunctions @
                    [\<lparr>ef_name = node_name i, ef_start = start, ef_end = end,
                      ef_exportStart = exportStart, ef_exportEnd = exportEnd,
                      ef_funcStart = nstart body, ef_funcEnd = nend body,
                      ef_async = async, ef_calls = calls\<rparr>])))
    | _ \<Rightarrow> Inl TypeError)"

text \<open>\<^verbatim>\<open>registerExportedArrowFuncNode\<close>, with its two assertions.\<close>

definition registerExportedArrowFuncNode ::
  "node \<Rightarrow> nat \<Rightarrow> nat \<Rightarrow> nat \<Rightarrow> nat \<Rightarrow> exported_function list \<Rightarrow> error + exported_function list" where
  "registerExportedArrowFuncNode n exportStart exportEnd start end exportedFunctions = (case n of
      VariableDeclarator _ _ ident init \<Rightarrow>
        (case init of
           None \<Rightarrow> Inl TypeError
         | Some funcNode \<Rightarrow>
             (case funcNode of
                ArrowFunctionExpression _ _ _ body async \<Rightarrow>
                  (case findFuncCalls body of
                     Inl err \<Rightarrow> Inl err
                   | Inr calls \<Rightarrow>
                       Inr (exportedFunctions @
                         [\<lparr>ef_name = node_name ident, ef_start = start, ef_end = end,
                           ef_exportStart = exportStart, ef_exportEnd = exportEnd,
                           ef_funcStart = nstart body, ef_funcEnd = nend body,
                           ef_async = async, ef_calls = calls\<rparr>]))
              | _ \<Rightarrow> Inl AssertionError))
    | _ \<Rightarrow> Inl AssertionError)"

text \<open>
  \<^verbatim>\<open>node.declarations.find(d => d.init.type === 'ArrowFunctionExpression')\<close>, as the
  truth of what it finds. The search reads \<^verbatim>\<open>d.init.type\<close> of each declarator up to
  the first arrow function; a declarator without initializer has \<^verbatim>\<open>init\<close>
  \<^verbatim>\<open>null\<close>.
\<close>

fun hasArrowFuncDeclaration :: "node list \<Rightarrow> error + bool" where
  "hasArrowFuncDeclaration [] = Inr False"
| "hasArrowFuncDeclaration (VariableDeclarator _ _ _ (Some init) # ds) =
     (case init of
        ArrowFunctionExpression _ _ _ _ _ \<Rightarrow> Inr True
      | _ \<Rightarrow> hasArrowFuncDeclaration ds)"
| "hasArrowFuncDeclaration (_ # ds) = Inl TypeError"

text \<open>\<^verbatim>\<open>node.declarations.find(d => d.id.name === defaultExportedIdentifier)\<close>, likewise.\<close>

fun hasIdentMatching :: "string \<Rightarrow> node list \<Rightarrow> error + bool" where
  "hasIdentMatching x [] = Inr False"
| "hasIdentMatching x (VariableDeclarator _ _ ident _ # ds) =
     (if node_name ident = Some x then Inr True else hasIdentMatching x ds)"
| "hasIdentMatching x (_ # ds) = Inl TypeError"

text \<open>
  The first statement \<^verbatim>\<open>export default x;\<close> whose \<open>x\<close> is an identifier, and the
  name it exports.
\<close>

definition exportDefaultDeclaration :: "node list \<Rightarrow> node option" where
  "exportDefaultDeclaration body =
     find (\<lambda>n. case n of ExportDefaultDeclaration _ _ (Identifier _ _ _) \<Rightarrow> True | _ \<Rightarrow> False) body"

definition defaultExportedIdentifier :: "node list \<Rightarrow> string option" where
  "defaultExportedIdentifier body = (case exportDefaultDeclaration body of
      Some (ExportDefaultDeclaration _ _ d) \<Rightarrow> node_name d
    | _ \<Rightarrow> None)"

definition multi_declaration_message :: string where
  "multi_declaration_message = ''No support for function export within multi-variable declaration''"

text \<open>
  \<^verbatim>\<open>maybeRegisterVariableDeclarations\<close>, given a variable declaration. \<open>export\<close> holds
  \<^verbatim>\<open>exportStart\<close> and \<^verbatim>\<open>exportEnd\<close>, which the callers pass together or not at
  all; \<open>body\<close> is the statement list of the file, for the default export.
\<close>

definition maybeRegisterVariableDeclarations ::
  "node list \<Rightarrow> node \<Rightarrow> (nat \<times> nat) option \<Rightarrow> nat \<Rightarrow> nat \<Rightarrow> exported_function list
    \<Rightarrow> error + exported_function list" where
  "maybeRegisterVariableDeclarations body n export start end exportedFunctions = (case n of
      VariableDeclaration _ _ _ declarations \<Rightarrow>
        (case hasArrowFuncDeclaration declarations of
           Inl err \<Rightarrow> Inl err
         | Inr hasArrow \<Rightarrow>
             (case (case defaultExportedIdentifier body of
                      None \<Rightarrow> Inr False
                    | Some x \<Rightarrow> if x = [] then Inr False else hasIdentMatching x declarations) of
                Inl err \<Rightarrow> Inl err
              | Inr hasIdentMatchingDefaultExport \<Rightarrow>
                  if \<not> hasArrow then Inr exportedFunctions
                  else if export = None \<and> \<not> hasIdentMatchingDefaultExport then Inr exportedFunctions
                  else (case declarations of
                          _ # second # _ \<Rightarrow>
                            Inl (ParseLimitationsError multi_declaration_message (nstart second))
                        | [d] \<Rightarrow>
                            (case export of
                               Some (exportStart, exportEnd) \<Rightarrow>
                                 registerExportedArrowFuncNode d exportStart exportEnd start end
                                   exportedFunctions
                             | None \<Rightarrow>
                                 (case exportDefaultDeclaration body of
                                    Some dflt \<Rightarrow>
                                      registerExportedArrowFuncNode d (nstart dflt) (nend dflt)
                                        start end exportedFunctions
                                  | None \<Rightarrow> Inl TypeError))
                        | [] \<Rightarrow> Inl TypeError)))
    | _ \<Rightarrow> Inl TypeError)"

text \<open>One round of \<^verbatim>\<open>ast.body.forEach\<close>.\<close>

definition exported_statement ::
  "node list \<Rightarrow> node \<Rightarrow> exported_function list \<Rightarrow> error + exported_function list" where
  "exported_statement body n exportedFunctions = (case n of
      ExportNamedDeclaration s e (Some declaration) \<Rightarrow>
        (case declaration of
           FunctionDeclaration _ _ _ _ _ _ \<Rightarrow>
             registerExportedFuncNode declaration s e s e exportedFunctions
         | VariableDeclaration _ _ kind _ \<Rightarrow>
             if kind = ''const''
             then maybeRegisterVariableDeclarations body declaration (Some (s, e)) s e exportedFunctions
             else Inr exportedFunctions
         | _ \<Rightarrow> Inr exportedFunctions)
    | VariableDeclaration s e kind _ \<Rightarrow>
        if kind = ''const''
        then maybeRegisterVariableDeclarations body n None s e exportedFunctions
        else Inr exportedFunctions
    | FunctionDeclaration s e ident _ _ _ \<Rightarrow>
        (case defaultExportedIdentifier body of
           None \<Rightarrow> Inr exportedFunctions
         | Some x \<Rightarrow>
             if x = [] then Inr exportedFunctions
             else (case ident of
                     None \<Rightarrow> Inl TypeError
                   | Some i \<Rightarrow>
                       if node_name i = Some x
                       then (case exportDefaultDeclaration body of
                               Some dflt \<Rightarrow>
                                 registerExportedFuncNode n (nstart dflt) (nend dflt) s e
                                   exportedFunctions
                             | None \<Rightarrow> Inl TypeError)
                       else Inr exportedFunctions))
    | _ \<Rightarrow> Inr exportedFunctions)"

fun exported_statements ::
  "node list \<Rightarrow> node list \<Rightarrow> exported_function list \<Rightarrow> error + exported_function list" where
  "exported_statements body [] exportedFunctions = Inr exportedFunctions"
| "exported_statements body (n # ns) exportedFunctions =
     (case exported_statement body n exportedFunctions of
        Inl err \<Rightarrow> Inl err
      | Inr fs \<Rightarrow> exported_statements body ns fs)"

text \<open>
  \<^verbatim>\<open>findExportedFunc\<close>. It starts by reading \<^verbatim>\<open>ast.body\<close> and calling \<^verbatim>\<open>find\<close>
  on it: \<open>None\<close> is the \<^verbatim>\<open>null\<close> of a script with a shebang, and of the nodes only
  a program and a block have a list as body. The result is the list under the key
  \<^verbatim>\<open>functions\<close>.
\<close>

definition findExportedFunc :: "node option \<Rightarrow> error + exported_function list" where
  "findExportedFunc ast = (case ast of
      None \<Rightarrow> Inl TypeError
    | Some (Program _ _ body) \<Rightarrow> exported_statements body body []
    | Some (BlockStatement _ _ body) \<Rightarrow> exported_statements body body []
    | Some _ \<Rightarrow> Inl TypeError)"

section \<open>Notions in which the properties are stated\<close>

text \<open>
  The rule for the name of a call chain, in the words of the description of the resolver:
  an identifier gives its name, a member access \<open>a.b\<close> the name of \<open>a\<close>, a dot and
  \<open>b\<close>, a call used as receiver the name of its callee and the marker \<open>()\<close>, a
  \<^verbatim>\<open>this\<close> reference the word itself. \<open>chain_root\<close> is the innermost receiver of a
  chain of member accesses and calls; the rule names a chain whose root is an identifier or
  \<^verbatim>\<open>this\<close>.
\<close>

fun chain_root :: "node \<Rightarrow> node" where
  "chain_root (MemberExpression _ _ obj _ _) = chain_root obj"
| "chain_root (CallExpression _ _ callee _) = chain_root callee"
| "chain_root n = n"

definition name_root :: "node \<Rightarrow> bool" where
  "name_root n = (case n of Identifier _ _ _ \<Rightarrow> True | ThisExpression _ _ \<Rightarrow> True | _ \<Rightarrow> False)"

fun dotted_rule :: "node \<Rightarrow> string" where
  "dotted_rule (Identifier _ _ x) = x"
| "dotted_rule (MemberExpression _ _ obj prop _) = dotted_rule obj @ ''.'' @ name_text prop"
| "dotted_rule (CallExpression _ _ callee _) = dotted_rule callee @ ''()''"
| "dotted_rule (ThisExpression _ _) = ''this''"
| "dotted_rule _ = []"









text \<open>
  What makes a call a hook: its resolved name is one of the four hook names, it has exactly
  one argument, the argument is a function literal, and no call of the \<^verbatim>\<open>it\<close> family
  is among its ancestors.
\<close>

definition hook_conditions :: "string \<Rightarrow> node \<Rightarrow> node list \<Rightarrow> bool" where
  "hook_conditions hook n ancestors = (case n of
      CallExpression _ _ _ args \<Rightarrow>
        parseCallee n = Some hook \<and> hook \<in> set SUPPORTED_HOOKS \<and> length args = 1
        \<and> list_all is_function_literal args
        \<and> \<not> list_ex (\<lambda>(m, dotted). isTestIdentifier dotted) (scopeNodes ancestors)
    | _ \<Rightarrow> False)"

text \<open>
  The record of a hook against the visit it is made from: the offsets of the call, the
  scope built from the ancestors, and what is read off the one argument.
\<close>

definition hook_of_visit :: "test_case \<Rightarrow> node \<times> node list \<Rightarrow> bool" where
  "hook_of_visit h v = (case v of (n, ancestors) \<Rightarrow>
     (case n of
        CallExpression s e _ args \<Rightarrow>
          (case args of
             [funcNode] \<Rightarrow>
               tc_start h = s \<and> tc_end h = e
               \<and> scope_of (scopeNodes ancestors) = Inr (tc_scope h)
               \<and> tc_async h = node_async funcNode
               \<and> tc_funcStart h = nstart funcNode \<and> tc_funcEnd h = nend funcNode
               \<and> findFuncCalls funcNode = Inr (tc_calls h)
           | _ \<Rightarrow> False)
      | _ \<Rightarrow> False))"

text \<open>
  Declarations of constants. A declarator of a \<^verbatim>\<open>const\<close> declaration has an
  initializer. A statement exports the declarators \<open>declarations\<close> when it is
  \<^verbatim>\<open>export const ...\<close>, or a \<^verbatim>\<open>const\<close> declaration one of whose names is the
  identifier of the default export of the file.
\<close>

definition declarator_with_init :: "node \<Rightarrow> bool" where
  "declarator_with_init d = (case d of VariableDeclarator _ _ _ (Some _) \<Rightarrow> True | _ \<Rightarrow> False)"

definition arrow_declarator :: "node \<Rightarrow> bool" where
  "arrow_declarator d = (case d of
      VariableDeclarator _ _ _ (Some (ArrowFunctionExpression _ _ _ _ _)) \<Rightarrow> True
    | _ \<Rightarrow> False)"

definition declarator_named :: "string \<Rightarrow> node \<Rightarrow> bool" where
  "declarator_named x d = (case d of
      VariableDeclarator _ _ ident _ \<Rightarrow> node_name ident = Some x
    | _ \<Rightarrow> False)"

definition exported_const :: "node list \<Rightarrow> node \<Rightarrow> node list \<Rightarrow> bool" where
  "exported_const body stmt declarations = (case stmt of
      ExportNamedDeclaration _ _ (Some (VariableDeclaration _ _ kind ds)) \<Rightarrow>
        kind = ''const'' \<and> ds = declarations
    | VariableDeclaration _ _ kind ds \<Rightarrow>
        kind = ''const'' \<and> ds = declarations
        \<and> (case defaultExportedIdentifier body of
             None \<Rightarrow> False
           | Some x \<Rightarrow> x \<noteq> [] \<and> list_ex (declarator_named x) declarations)
    | _ \<Rightarrow> False)"

section \<open>Facts about the walk and about failures\<close>


text \<open>Running callbacks over visits: failures, and invariants of the accumulated state.\<close>

lemma run_visits_error:
  assumes "\<And>n a st e. f n a st = Inl e \<Longrightarrow> P e"
  shows "run_visits f vs st = Inl e \<Longrightarrow> P e"
  by (induction vs arbitrary: st) (auto split: sum.splits dest: assms)

lemma run_visits_failing:
  assumes "(n, a) \<in> set vs" and "\<And>st. isl (f n a st)"
  shows "isl (run_visits f vs st)"
  using assms(1)
proof (induction vs arbitrary: st)
  case Nil
  then show ?case by simp
next
  case (Cons v vs)
  obtain m b where v: "v = (m, b)" by (cases v)
  show ?case
  proof (cases "f m b st")
    case (Inl e)
    with v show ?thesis by simp
  next
    case (Inr st')
    with assms(2) [of st] have "(m, b) \<noteq> (n, a)" by auto
    with Cons.prems v have "(n, a) \<in> set vs" by auto
    with Cons.IH [of st'] Inr v show ?thesis by simp
  qed
qed

lemma run_visits_invariant:
  assumes step: "\<And>n a st st'. Q n a \<Longrightarrow> I st \<Longrightarrow> f n a st = Inr st' \<Longrightarrow> I st'"
  shows "\<forall>(n, a) \<in> set vs. Q n a \<Longrightarrow> I st \<Longrightarrow> run_visits f vs st = Inr st' \<Longrightarrow> I st'"
proof (induction vs arbitrary: st)
  case Nil
  then show ?case by simp
next
  case (Cons v vs)
  obtain m b where v: "v = (m, b)" by (cases v)
  from Cons.prems(3) v obtain st1 where one: "f m b st = Inr st1" and rest: "run_visits f vs st1 = Inr st'"
    by (auto split: sum.splits)
  from Cons.prems(1) v have "Q m b" by simp
  with step one Cons.prems(2) have "I st1" by blast
  with Cons.IH [of st1] rest Cons.prems(1) show ?case by simp
qed

text \<open>\<^verbatim>\<open>findTests\<close> and \<^verbatim>\<open>findFuncCalls\<close> fail with a \<^verbatim>\<open>TypeError\<close> only.\<close>

lemma literal_value_error:
  "maybeGetLiteralValue n = Inl e \<longrightarrow> e = TypeError"
  "object_loop ps out = Inl e \<longrightarrow> e = TypeError"
  "array_loop es out' = Inl e \<longrightarrow> e = TypeError"
  by (induction n and ps out and es out' rule: maybeGetLiteralValue_object_loop_array_loop.induct)
    (auto split: option.splits sum.splits if_splits)

lemma literal_arguments_error: "literal_arguments i as = Inl e \<Longrightarrow> e = TypeError"
  by (induction as arbitrary: i) (auto split: sum.splits simp: literal_value_error)

lemma api_annotations_error: "api_annotations d c = Inl e \<Longrightarrow> e = TypeError"
  by (cases c) (simp_all add: api_annotations_def split: if_splits)

lemma call_visitor_error: "call_visitor n a calls = Inl e \<Longrightarrow> e = TypeError"
  by (cases n)
    (auto simp: call_visitor_def Let_def split: option.splits if_splits sum.splits
      dest: literal_arguments_error api_annotations_error)

lemma findFuncCalls_error: "findFuncCalls n = Inl e \<Longrightarrow> e = TypeError"
  unfolding findFuncCalls_def by (rule run_visits_error [where f = call_visitor]) (rule call_visitor_error)

lemma inferTestName_error: "inferTestName n = Inl e \<Longrightarrow> e = TypeError"
  by (cases n) (auto simp: inferTestName_def split: list.splits)

lemma scope_of_error: "scope_of os = Inl e \<Longrightarrow> e = TypeError"
  by (induction os rule: scope_of.induct) (auto split: sum.splits dest: inferTestName_error)

lemma visit_call_error: "visit_call n a = Inl e \<Longrightarrow> e = TypeError"
  by (cases n)
    (auto simp: visit_call_def split: option.splits if_splits sum.splits list.splits
      dest: scope_of_error findFuncCalls_error)

lemma test_visitor_error: "test_visitor n a st = Inl e \<Longrightarrow> e = TypeError"
  by (auto simp: test_visitor_def split: sum.splits outcome.splits dest: visit_call_error)

lemma findTests_error: "findTests ast = Inl e \<Longrightarrow> e = TypeError"
proof (cases ast)
  case None
  then show "findTests ast = Inl e \<Longrightarrow> e = TypeError" by (simp add: findTests_def)
next
  case (Some root)
  assume "findTests ast = Inl e"
  with Some show "e = TypeError"
    unfolding findTests_def Let_def
    by (auto intro: run_visits_error [where f = test_visitor and P = "\<lambda>e. e = TypeError"]
        dest: test_visitor_error)
qed


lemma isTestIdentifier_nonempty: "isTestIdentifier d \<Longrightarrow> d \<noteq> []"
  by (auto simp: isTestIdentifier_def)

text \<open>The callback of \<^verbatim>\<open>findTests\<close> never changes the keys of the hooks.\<close>

lemma push_hook_keys: "map fst (push_hook b h hs) = map fst hs"
  by (induction hs) (auto simp: push_hook_def)

lemma test_visitor_keys:
  "test_visitor n a st = Inr st' \<Longrightarrow> map fst (hooks st') = map fst (hooks st)"
  by (auto simp: test_visitor_def push_hook_keys split: sum.splits outcome.splits)

lemma findTests_keys:
  assumes "findTests ast = Inr r"
  shows "map fst (hooks r) = SUPPORTED_HOOKS"
proof -
  let ?st = "\<lparr>tests = [], hooks = map (\<lambda>hook. (hook, [])) SUPPORTED_HOOKS\<rparr>"
  show ?thesis
  proof (cases ast)
    case None
    with assms show ?thesis by (auto simp: findTests_def comp_def)
  next
    case (Some root)
    with assms have run: "run_visits test_visitor (walk [] root) ?st = Inr r"
      by (simp add: findTests_def)
    have "map fst (hooks r) = map fst (hooks ?st)"
      by (rule run_visits_invariant
          [where f = test_visitor and Q = "\<lambda>n a. True"
            and I = "\<lambda>st. map fst (hooks st) = map fst (hooks ?st)", OF _ _ _ run])
        (auto dest: test_visitor_keys)
    then show ?thesis by (simp add: comp_def)
  qed
qed

section \<open>A test call with fewer than two arguments\<close>

lemma visit_call_short_test:
  assumes "parseCallee (CallExpression s e callee args) = Some d" and "isTestIdentifier d"
    and "length args < 2"
  shows "isl (visit_call (CallExpression s e callee args) anc)"
proof -
  from assms(3) have "drop 1 args = []" by simp
  with assms(1,2) isTestIdentifier_nonempty [OF assms(2)] show ?thesis
    by (simp add: visit_call_def split: sum.splits)
qed

text \<open>
  Claim C10. \<^verbatim>\<open>findTests\<close> returns only if every call of the \<^verbatim>\<open>it\<close> family that the
  walk visits has at least two arguments: on a tree in which the walk visits a call whose
  resolved name is \<^verbatim>\<open>it\<close> or starts with \<^verbatim>\<open>it.\<close> and which has fewer than two
  arguments, as \<^verbatim>\<open>it("x")\<close>, \<^verbatim>\<open>findTests\<close> throws a \<^verbatim>\<open>TypeError\<close>; the call is
  not skipped.
\<close>

theorem findTests_short_test_call_throws:
  assumes "(n, anc) \<in> set (walk [] root)"
    and "n = CallExpression s e callee args"
    and "parseCallee n = Some dottedName"
    and "isTestIdentifier dottedName"
    and "length args < 2"
  shows "findTests (Some root) = Inl TypeError"
proof -
  have "isl (visit_call n anc)"
    using assms(2-5) visit_call_short_test by simp
  then have "\<And>st. isl (test_visitor n anc st)"
    by (auto simp: test_visitor_def isl_def)
  with assms(1) have "isl (findTests (Some root))"
    unfolding findTests_def Let_def by (simp add: run_visits_failing)
  then obtain err where "findTests (Some root) = Inl err"
    by (auto simp: isl_def)
  with findTests_error show ?thesis by blast
qed

text \<open>The file \<^verbatim>\<open>it("x")\<close>.\<close>

theorem findTests_short_test_call_throws_witness:
  "(CallExpression 0 7 (Identifier 0 2 ''it'') [Literal 3 6 (LString ''x'')],
    [Program 0 7 [ExpressionStatement 0 7
       (CallExpression 0 7 (Identifier 0 2 ''it'') [Literal 3 6 (LString ''x'')])],
     ExpressionStatement 0 7
       (CallExpression 0 7 (Identifier 0 2 ''it'') [Literal 3 6 (LString ''x'')]),
     CallExpression 0 7 (Identifier 0 2 ''it'') [Literal 3 6 (LString ''x'')]])
     \<in> set (walk [] (Program 0 7 [ExpressionStatement 0 7
       (CallExpression 0 7 (Identifier 0 2 ''it'') [Literal 3 6 (LString ''x'')])]))
   \<and> parseCallee (CallExpression 0 7 (Identifier 0 2 ''it'') [Literal 3 6 (LString ''x'')])
       = Some ''it''
   \<and> isTestIdentifier ''it''
   \<and> length [Literal 3 6 (LString ''x'')] < 2
   \<and> findTests (Some (Program 0 7 [ExpressionStatement 0 7
      (CallExpression 0 7 (Identifier 0 2 ''it'') [Literal 3 6 (LString ''x'')])])) = Inl TypeError"
proof -
  let ?call = "CallExpression 0 7 (Identifier 0 2 ''it'') [Literal 3 6 (LString ''x'')]"
  let ?root = "Program 0 7 [ExpressionStatement 0 7 ?call]"
  have visited: "(?call, [?root, ExpressionStatement 0 7 ?call, ?call]) \<in> set (walk [] ?root)"
    by (simp add: walk.simps children_def is_call_def)
  have name: "parseCallee ?call = Some ''it''"
    by (simp add: parseCallee_def)
  have family: "isTestIdentifier ''it''"
    by (simp add: isTestIdentifier_def)
  have short: "length [Literal 3 6 (LString ''x'')] < 2"
    by simp
  from findTests_short_test_call_throws [OF visited refl name family short]
  show ?thesis using visited name family by simp
qed

section \<open>Evaluation of the extractors on given trees\<close>

lemmas tree_eval = walk.simps children_def is_call_def parseCallee_def node_type_def
  name_text_def node_name_def

lemmas call_eval = findFuncCalls_def call_visitor_def api_annotations_def api_property_def
  assertPropertyNodeIsLiteralBooleanAndExtract_def expected_boolean_message_def getPropertyKey_def
  truthy_def value_truthy_def toPropertyKey_def

lemmas test_eval = findTests_def test_visitor_def visit_call_def scopeNodes_def inferTestName_def
  isTestIdentifier_def isDescribeIdentifier_def isTestOrDescribeIdentifier_def isSkip_def
  isOnly_def isIosOnly_def isAndroidOnly_def SUPPORTED_HOOKS_def node_async_def
  is_function_literal_def push_hook_def suffix_to_prefix

section \<open>The scope of a nested test\<close>

text \<open>
  Claim C1, as the code has it. For
  \<^verbatim>\<open>describe("A", () => { describe("B", () => { it("C", () => {}); }); })\<close>, whatever
  the offsets of its nodes, \<^verbatim>\<open>findTests\<close> yields exactly one test case and no hook. The
  scope of the test case has three frames, labelled \<open>A\<close>, \<open>B\<close> and \<open>C\<close> from the
  outermost inwards: the two \<^verbatim>\<open>describe\<close> calls around the test and then the \<^verbatim>\<open>it\<close>
  call itself, which is the last of its own ancestors.
\<close>

theorem nested_describe_scope:
  "\<exists>t. findTests (Some (Program p0 p1 [ExpressionStatement q0 q1
      (CallExpression a0 a1 (Identifier a2 a3 ''describe'')
         [Literal a4 a5 (LString ''A''),
          ArrowFunctionExpression a6 a7 []
            (BlockStatement a8 a9 [ExpressionStatement r0 r1
               (CallExpression b0 b1 (Identifier b2 b3 ''describe'')
                  [Literal b4 b5 (LString ''B''),
                   ArrowFunctionExpression b6 b7 []
                     (BlockStatement b8 b9 [ExpressionStatement u0 u1
                        (CallExpression c0 c1 (Identifier c2 c3 ''it'')
                           [Literal c4 c5 (LString ''C''),
                            ArrowFunctionExpression c6 c7 [] (BlockStatement c8 c9 []) c_async])])
                     b_async])])
            a_async])]))
      = Inr \<lparr>tests = [t],
             hooks = [(''beforeAll'', []), (''beforeEach'', []), (''afterAll'', []), (''afterEach'', [])]\<rparr>
    \<and> map sf_name (tc_scope t) = [LString ''A'', LString ''B'', LString ''C'']
    \<and> map sf_func (tc_scope t) = [''describe'', ''describe'', ''it'']
    \<and> map sf_start (tc_scope t) = [a0, b0, c0]
    \<and> map sf_end (tc_scope t) = [a1, b1, c1]
    \<and> tc_start t = c0 \<and> tc_end t = c1"
  by (simp add: tree_eval call_eval test_eval)

text \<open>
  The same file with the offsets of its source text: the scope has three frames, not two.
\<close>

theorem nested_describe_scope_counterexample:
  "findTests (Some (Program 0 69 [ExpressionStatement 0 69
       (CallExpression 0 69 (Identifier 0 8 ''describe'')
          [Literal 9 12 (LString ''A''),
           ArrowFunctionExpression 14 68 []
             (BlockStatement 20 68 [ExpressionStatement 22 66
                (CallExpression 22 65 (Identifier 22 30 ''describe'')
                   [Literal 31 34 (LString ''B''),
                    ArrowFunctionExpression 36 64 []
                      (BlockStatement 42 64 [ExpressionStatement 44 62
                         (CallExpression 44 61 (Identifier 44 46 ''it'')
                            [Literal 47 50 (LString ''C''),
                             ArrowFunctionExpression 52 60 [] (BlockStatement 58 60 []) False])])
                      False])])
             False])])) =
     Inr \<lparr>tests =
            [\<lparr>tc_scope =
                [\<lparr>sf_name = LString ''A'', sf_func = ''describe'', sf_start = 0, sf_end = 69,
                   sf_skip = False, sf_only = False, sf_iosOnly = False, sf_androidOnly = False\<rparr>,
                 \<lparr>sf_name = LString ''B'', sf_func = ''describe'', sf_start = 22, sf_end = 65,
                   sf_skip = False, sf_only = False, sf_iosOnly = False, sf_androidOnly = False\<rparr>,
                 \<lparr>sf_name = LString ''C'', sf_func = ''it'', sf_start = 44, sf_end = 61,
                   sf_skip = False, sf_only = False, sf_iosOnly = False, sf_androidOnly = False\<rparr>],
               tc_start = 44, tc_end = 61, tc_async = Some False, tc_funcStart = 52,
               tc_funcEnd = 60, tc_calls = [], tc_skip = False, tc_only = False,
               tc_iosOnly = False, tc_androidOnly = False\<rparr>],
          hooks = [(''beforeAll'', []), (''beforeEach'', []), (''afterAll'', []), (''afterEach'', [])]\<rparr>"
  by (simp add: tree_eval call_eval test_eval)

section \<open>The call site of a call on the result of \<^verbatim>\<open>api\<close>\<close>

text \<open>
  Claim C2, as the code has it. For \<^verbatim>\<open>api({ sync: false, waitAfter: true }).submit()\<close>,
  whatever the offsets, the collector records exactly one call site: the call of
  \<^verbatim>\<open>submit\<close>, under the name \<^verbatim>\<open>api().submit\<close>, starting at the property \<^verbatim>\<open>submit\<close>
  and rooted at the start of the chain; the call of \<^verbatim>\<open>api\<close> itself is not recorded.
  The same holds with \<^verbatim>\<open>sync: someVariable\<close> in place of \<^verbatim>\<open>sync: false\<close>.
\<close>

theorem api_submit_call_site:
  "(\<exists>c. findFuncCalls (CallExpression a0 a1
      (MemberExpression m0 m1
         (CallExpression i0 i1 (Identifier n0 n1 ''api'')
            [ObjectExpression o0 o1
               [Property p0 p1 (Identifier k0 k1 ''sync'') (Literal v0 v1 (LBoolean False)) False,
                Property w0 w1 (Identifier x0 x1 ''waitAfter'') (Literal y0 y1 (LBoolean True)) False]])
         (Identifier s0 s1 ''submit'') False) []) = Inr [c]
      \<and> call_name c = ''api().submit'' \<and> call_start c = s0 \<and> call_rootStart c = a0
      \<and> call_end c = a1)
   \<and> (\<exists>c. findFuncCalls (CallExpression a0 a1
      (MemberExpression m0 m1
         (CallExpression i0 i1 (Identifier n0 n1 ''api'')
            [ObjectExpression o0 o1
               [Property p0 p1 (Identifier k0 k1 ''sync'') (Identifier v0 v1 someVariable) False,
                Property w0 w1 (Identifier x0 x1 ''waitAfter'') (Literal y0 y1 (LBoolean True)) False]])
         (Identifier s0 s1 ''submit'') False) []) = Inr [c]
      \<and> call_name c = ''api().submit'' \<and> call_start c = s0 \<and> call_rootStart c = a0
      \<and> call_end c = a1)"
  by (simp add: tree_eval call_eval)

text \<open>
  With the offsets of the source text: the name of the call site is \<^verbatim>\<open>api().submit\<close>,
  which does not start with \<^verbatim>\<open>api.\<close>, and the record has neither of the two flags.
\<close>

theorem api_submit_call_site_counterexample:
  "findFuncCalls (CallExpression 0 46
      (MemberExpression 0 44
         (CallExpression 0 37 (Identifier 0 3 ''api'')
            [ObjectExpression 4 36
               [Property 6 17 (Identifier 6 10 ''sync'') (Literal 12 17 (LBoolean False)) False,
                Property 19 34 (Identifier 19 28 ''waitAfter'') (Literal 30 34 (LBoolean True)) False]])
         (Identifier 38 44 ''submit'') False) []) =
     Inr [\<lparr>call_name = ''api().submit'', call_start = 38, call_rootStart = 0, call_end = 46,
           call_arguments = [], call_await = False, call_literalArguments = [],
           call_apiSyncDisabled = False, call_apiWaitAfter = False, call_errors = []\<rparr>]"
  by (simp add: tree_eval call_eval)

section \<open>Resolved names\<close>

lemma traverse_supported: "name_root (chain_root c) \<Longrightarrow> traverse c = Some (dotted_rule c)"
  by (induction c rule: traverse.induct) (simp_all add: name_root_def)

lemma traverse_unsupported: "\<not> name_root (chain_root c) \<Longrightarrow> traverse c = None"
  by (induction c rule: traverse.induct) (simp_all add: name_root_def)

text \<open>
  Claim C3, as the code has it. The callee of a call resolves to the name the rule gives
  when the chain of member accesses and calls it is made of starts from an identifier or
  from \<^verbatim>\<open>this\<close>; a member access adds a dot and the name of its property whether it
  is computed or not. For every other root of the chain (a \<^verbatim>\<open>new\<close> expression, an
  array, object, string or template literal, or any other node) the resolution gives the
  unsupported value, and neither the collector of call sites nor the extractor of tests
  records anything for the call.
\<close>

theorem resolved_name_rule:
  "(name_root (chain_root callee) \<longrightarrow>
      parseCallee (CallExpression s e callee args) = Some (dotted_rule callee))
   \<and> (\<not> name_root (chain_root callee) \<longrightarrow>
        parseCallee (CallExpression s e callee args) = None
        \<and> call_visitor (CallExpression s e callee args) ancestors calls = Inr calls
        \<and> visit_call (CallExpression s e callee args) ancestors = Inr Ignored)"
  by (simp add: parseCallee_def call_visitor_def visit_call_def traverse_supported traverse_unsupported)

text \<open>\<^verbatim>\<open>this.setup()\<close> resolves to its dotted name; \<^verbatim>\<open>[2, 1].sort()\<close> is not recorded.\<close>

theorem resolved_name_rule_witness:
  "name_root (chain_root (MemberExpression 0 10 (ThisExpression 0 4) (Identifier 5 10 ''setup'') False))
   \<and> parseCallee (CallExpression 0 12
        (MemberExpression 0 10 (ThisExpression 0 4) (Identifier 5 10 ''setup'') False) [])
      = Some ''this.setup''
   \<and> \<not> name_root (chain_root (MemberExpression 0 11
        (ArrayExpression 0 6 [Some (Literal 1 2 (LNumber ''2'')), Some (Literal 4 5 (LNumber ''1''))])
        (Identifier 7 11 ''sort'') False))
   \<and> findFuncCalls (CallExpression 0 13 (MemberExpression 0 11
        (ArrayExpression 0 6 [Some (Literal 1 2 (LNumber ''2'')), Some (Literal 4 5 (LNumber ''1''))])
        (Identifier 7 11 ''sort'') False) []) = Inr []"
proof -
  let ?this_call = "MemberExpression 0 10 (ThisExpression 0 4) (Identifier 5 10 ''setup'') False"
  let ?sort = "MemberExpression 0 11
        (ArrayExpression 0 6 [Some (Literal 1 2 (LNumber ''2'')), Some (Literal 4 5 (LNumber ''1''))])
        (Identifier 7 11 ''sort'') False"
  have a: "name_root (chain_root ?this_call)" by (simp add: name_root_def)
  have b: "\<not> name_root (chain_root ?sort)" by (simp add: name_root_def)
  from resolved_name_rule [of ?this_call 0 12 "[]" "[]" "[]"] a
  have "parseCallee (CallExpression 0 12 ?this_call []) = Some ''this.setup''"
    by (simp add: name_text_def node_name_def)
  moreover from resolved_name_rule [of ?sort 0 13 "[]" "[CallExpression 0 13 ?sort []]" "[]"] b
  have "findFuncCalls (CallExpression 0 13 ?sort []) = Inr []"
    by (simp add: findFuncCalls_def walk.simps children_def is_call_def)
  ultimately show ?thesis using a b by simp
qed

text \<open>
  \<^verbatim>\<open>a[b]()\<close>: the computed member access resolves to \<^verbatim>\<open>a.b\<close> and the call site is
  recorded.
\<close>

theorem computed_member_counterexample:
  "findFuncCalls (CallExpression 0 6
      (MemberExpression 0 4 (Identifier 0 1 ''a'') (Identifier 2 3 ''b'') True) []) =
     Inr [\<lparr>call_name = ''a.b'', call_start = 2, call_rootStart = 0, call_end = 6,
           call_arguments = [], call_await = False, call_literalArguments = [],
           call_apiSyncDisabled = False, call_apiWaitAfter = False, call_errors = []\<rparr>]"
  by (simp add: tree_eval call_eval)

section \<open>Literal arguments that are falsy\<close>

text \<open>
  Claim C4 at \<^verbatim>\<open>f(0)\<close> and at the object literals \<^verbatim>\<open>{a: 0}\<close> and
  \<^verbatim>\<open>{[k]: 1}\<close>. Every leaf of the first two is a literal, yet the call site of
  \<^verbatim>\<open>f(0)\<close> has no literal argument at index 0, and the evaluation of \<^verbatim>\<open>{a: 0}\<close>
  is \<^verbatim>\<open>undefined\<close>: the code tests the value it has evaluated for truthiness. The
  key of the third is computed from a variable, yet the evaluation gives the object with
  the key \<^verbatim>\<open>k\<close>: the code does not look at \<^verbatim>\<open>computed\<close>.
\<close>

theorem falsy_literal_dropped:
  "findFuncCalls (CallExpression 0 4 (Identifier 0 1 ''f'') [Literal 2 3 (LNumber ''0'')]) =
     Inr [\<lparr>call_name = ''f'', call_start = 0, call_rootStart = 0, call_end = 4,
           call_arguments = [\<lparr>arg_type = ''Literal'', arg_start = 2, arg_end = 3\<rparr>],
           call_await = False, call_literalArguments = [],
           call_apiSyncDisabled = False, call_apiWaitAfter = False, call_errors = []\<rparr>]
   \<and> maybeGetLiteralValue (ObjectExpression 2 8
        [Property 3 7 (Identifier 3 4 ''a'') (Literal 6 7 (LNumber ''0'')) False]) = Inr None
   \<and> maybeGetLiteralValue (ObjectExpression 2 10
        [Property 3 9 (Identifier 4 5 ''k'') (Literal 8 9 (LNumber ''1'')) True])
       = Inr (Some (Obj [(''k'', Prim (LNumber ''1''))]))"
  by (simp add: tree_eval call_eval)

section \<open>Aggregate flags\<close>
















section \<open>Hooks\<close>

lemma hook_name_not_test: "hook \<in> set SUPPORTED_HOOKS \<Longrightarrow> \<not> isTestIdentifier hook \<and> hook \<noteq> []"
  by (auto simp: SUPPORTED_HOOKS_def isTestIdentifier_def)

lemma recorded_hook_conditions:
  assumes "visit_call n a = Inr (NewHook hook h)"
  shows "hook_conditions hook n a"
proof (cases n)
  case (CallExpression s e callee args)
  with assms show ?thesis
    by (auto simp: visit_call_def hook_conditions_def
        split: option.splits if_splits sum.splits list.splits)
qed (use assms in \<open>simp_all add: visit_call_def\<close>)

lemma hook_conditions_recorded:
  assumes "hook_conditions hook n a" and "\<not> isl (visit_call n a)"
  shows "\<exists>h. visit_call n a = Inr (NewHook hook h)"
proof (cases n)
  case (CallExpression s e callee args)
  with assms(1) obtain funcNode where args: "args = [funcNode]" "is_function_literal funcNode"
    and name: "parseCallee n = Some hook" "hook \<in> set SUPPORTED_HOOKS"
    and scope: "\<not> list_ex (\<lambda>(m, dotted). isTestIdentifier dotted) (scopeNodes a)"
    by (cases args) (auto simp: hook_conditions_def)
  with CallExpression assms(2) hook_name_not_test [OF name(2)] show ?thesis
    by (auto simp: visit_call_def split: sum.splits)
qed (use assms(1) in \<open>simp_all add: hook_conditions_def\<close>)

lemma malformed_hook_ignored:
  assumes "parseCallee (CallExpression s e callee args) = Some hook"
    and "hook \<in> set SUPPORTED_HOOKS"
    and "length args \<noteq> 1 \<or> \<not> list_all is_function_literal args"
  shows "visit_call (CallExpression s e callee args) a = Inr Ignored"
  using assms hook_name_not_test [OF assms(2)]
  by (auto simp: visit_call_def split: list.splits)

lemma hook_in_test_ignored:
  assumes "parseCallee (CallExpression s e callee args) = Some hook"
    and "hook \<in> set SUPPORTED_HOOKS"
    and "list_ex (\<lambda>(m, dotted). isTestIdentifier dotted) (scopeNodes a)"
  shows "visit_call (CallExpression s e callee args) a = Inr Ignored"
  using assms hook_name_not_test [OF assms(2)]
  by (auto simp: visit_call_def split: list.splits)

lemma top_level_hook_example:
  "\<exists>h. findTests (Some (Program p0 p1 [ExpressionStatement q0 q1
      (CallExpression c0 c1 (Identifier i0 i1 ''beforeEach'')
         [ArrowFunctionExpression f0 f1 [] (BlockStatement b0 b1 []) is_async])]))
      = Inr \<lparr>tests = [],
             hooks = [(''beforeAll'', []), (''beforeEach'', [h]), (''afterAll'', []), (''afterEach'', [])]\<rparr>
    \<and> tc_scope h = [] \<and> tc_start h = c0 \<and> tc_end h = c1"
  by (simp add: tree_eval call_eval test_eval)

lemma hook_in_test_example:
  "\<exists>t. findTests (Some (Program p0 p1 [ExpressionStatement q0 q1
      (CallExpression t0 t1 (Identifier j0 j1 ''it'')
         [Literal l0 l1 (LString ''t''),
          ArrowFunctionExpression g0 g1 []
            (BlockStatement u0 u1 [ExpressionStatement r0 r1
               (CallExpression c0 c1 (Identifier i0 i1 ''beforeEach'')
                  [ArrowFunctionExpression f0 f1 [] (BlockStatement b0 b1 []) inner_async])])
            outer_async])]))
      = Inr \<lparr>tests = [t],
             hooks = [(''beforeAll'', []), (''beforeEach'', []), (''afterAll'', []), (''afterEach'', [])]\<rparr>"
  by (simp add: tree_eval call_eval test_eval)

lemma map_of_push_hook:
  "map_of (push_hook b' h hs) b =
     (if b = b' then map_option (\<lambda>v. v @ [h]) (map_of hs b) else map_of hs b)"
  by (induction hs) (auto simp: push_hook_def)

lemma recorded_hook_of_visit:
  assumes "visit_call n a = Inr (NewHook hook h)"
  shows "hook_of_visit h (n, a)"
proof (cases n)
  case (CallExpression s e callee args)
  with assms show ?thesis
    by (auto simp: visit_call_def hook_of_visit_def
        split: option.splits if_splits sum.splits list.splits)
qed (use assms in \<open>simp_all add: visit_call_def\<close>)

lemma hook_conditions_name:
  "hook_conditions b n a \<Longrightarrow> hook_conditions b' n a \<Longrightarrow> b = b'"
  by (cases n) (simp_all add: hook_conditions_def)

lemma run_visits_buckets:
  assumes "run_visits test_visitor vs st = Inr st'" and "map_of (hooks st) b = Some old"
  shows "\<exists>new. map_of (hooks st') b = Some (old @ new)
      \<and> list_all2 hook_of_visit new (filter (\<lambda>(n, a). hook_conditions b n a) vs)"
  using assms
proof (induction vs arbitrary: st old)
  case Nil
  then show ?case by simp
next
  case (Cons v vs)
  obtain n a where v: "v = (n, a)" by (cases v)
  from Cons.prems(1) v obtain st1 where one: "test_visitor n a st = Inr st1"
    and rest: "run_visits test_visitor vs st1 = Inr st'"
    by (auto split: sum.splits)
  from one obtain out where out: "visit_call n a = Inr out"
    by (auto simp: test_visitor_def split: sum.splits)
  then have returns: "\<not> isl (visit_call n a)" by simp
  show ?case
  proof (cases "hook_conditions b n a")
    case True
    with hook_conditions_recorded [OF True returns] out obtain h where h: "out = NewHook b h"
      by auto
    with out one have st1: "hooks st1 = push_hook b h (hooks st)"
      by (auto simp: test_visitor_def)
    with Cons.prems(2) have "map_of (hooks st1) b = Some (old @ [h])"
      by (simp add: map_of_push_hook)
    from Cons.IH [OF rest this] obtain new where
      new: "map_of (hooks st') b = Some ((old @ [h]) @ new)"
        "list_all2 hook_of_visit new (filter (\<lambda>(n, a). hook_conditions b n a) vs)"
      by blast
    from out h have "hook_of_visit h (n, a)"
      by (simp add: recorded_hook_of_visit)
    with new True v have "map_of (hooks st') b = Some (old @ (h # new))
        \<and> list_all2 hook_of_visit (h # new) (filter (\<lambda>(n, a). hook_conditions b n a) (v # vs))"
      by simp
    then show ?thesis by blast
  next
    case False
    have "map_of (hooks st1) b = Some old"
    proof (cases out)
      case Ignored
      with out one Cons.prems(2) show ?thesis by (auto simp: test_visitor_def)
    next
      case (NewTest t)
      with out one Cons.prems(2) show ?thesis by (auto simp: test_visitor_def)
    next
      case (NewHook b' h)
      with out have "hook_conditions b' n a" by (simp add: recorded_hook_conditions)
      with False have "b \<noteq> b'" by auto
      with NewHook out one Cons.prems(2) show ?thesis
        by (auto simp: test_visitor_def map_of_push_hook)
    qed
    from Cons.IH [OF rest this] False v show ?thesis by simp
  qed
qed

lemma findTests_buckets:
  assumes "findTests (Some root) = Inr r" and "hook \<in> set SUPPORTED_HOOKS"
  shows "\<exists>hs. map_of (hooks r) hook = Some hs
      \<and> list_all2 hook_of_visit hs (filter (\<lambda>(n, a). hook_conditions hook n a) (walk [] root))"
proof -
  let ?st = "\<lparr>tests = [], hooks = map (\<lambda>hook. (hook, [])) SUPPORTED_HOOKS\<rparr>"
  from assms(1) have run: "run_visits test_visitor (walk [] root) ?st = Inr r"
    by (simp add: findTests_def)
  from assms(2) have "map_of (hooks ?st) hook = Some []"
    by (auto simp: SUPPORTED_HOOKS_def)
  from run_visits_buckets [OF run this] show ?thesis by simp
qed

text \<open>
  Claim C6, as the code has it. On every file on which \<^verbatim>\<open>findTests\<close> returns, the
  hooks are keyed by the four hook names, and the bucket of each name holds, in the order
  of the walk, exactly one record for each visited call that meets the conditions under
  that name: its resolved name is that name, one of \<^verbatim>\<open>beforeAll\<close>, \<^verbatim>\<open>beforeEach\<close>,
  \<^verbatim>\<open>afterAll\<close>, \<^verbatim>\<open>afterEach\<close>, it has exactly one argument, the argument is a
  function expression or an arrow function, and no call of the \<^verbatim>\<open>it\<close> family is among
  its ancestors. So on such a file a call is recorded as a hook if and only if it meets the
  conditions. A call under a hook name with another number of arguments, with an argument
  of another shape, or inside a call of the \<^verbatim>\<open>it\<close> family is ignored by the callback:
  nothing is recorded and nothing is thrown. \<^verbatim>\<open>beforeEach(() => {})\<close> as a whole file
  is recorded in the bucket \<^verbatim>\<open>beforeEach\<close> with an empty scope; inside
  \<^verbatim>\<open>it("t", () => { beforeEach(() => {}) })\<close> it is recorded in no bucket.
\<close>

theorem hook_classification:
  "(findTests (Some root) = Inr r \<and> hook \<in> set SUPPORTED_HOOKS \<longrightarrow>
      map fst (hooks r) = SUPPORTED_HOOKS
      \<and> (\<exists>hs. map_of (hooks r) hook = Some hs
           \<and> list_all2 hook_of_visit hs
                (filter (\<lambda>(n, a). hook_conditions hook n a) (walk [] root))))
   \<and> (parseCallee (CallExpression s e callee args) = Some name \<and> name \<in> set SUPPORTED_HOOKS
        \<and> (length args \<noteq> 1 \<or> \<not> list_all is_function_literal args
           \<or> list_ex (\<lambda>(m, dotted). isTestIdentifier dotted) (scopeNodes ancestors)) \<longrightarrow>
        visit_call (CallExpression s e callee args) ancestors = Inr Ignored
        \<and> test_visitor (CallExpression s e callee args) ancestors st = Inr st)
   \<and> (\<exists>h. findTests (Some (Program p0 p1 [ExpressionStatement q0 q1
      (CallExpression c0 c1 (Identifier i0 i1 ''beforeEach'')
         [ArrowFunctionExpression f0 f1 [] (BlockStatement b0 b1 []) is_async])]))
      = Inr \<lparr>tests = [],
             hooks = [(''beforeAll'', []), (''beforeEach'', [h]), (''afterAll'', []), (''afterEach'', [])]\<rparr>
    \<and> tc_scope h = [] \<and> tc_start h = c0 \<and> tc_end h = c1)
   \<and> (\<exists>t. findTests (Some (Program p0 p1 [ExpressionStatement q0 q1
      (CallExpression t0 t1 (Identifier j0 j1 ''it'')
         [Literal l0 l1 (LString ''t''),
          ArrowFunctionExpression g0 g1 []
            (BlockStatement u0 u1 [ExpressionStatement r0 r1
               (CallExpression c0 c1 (Identifier i0 i1 ''beforeEach'')
                  [ArrowFunctionExpression f0 f1 [] (BlockStatement b0 b1 []) inner_async])])
            outer_async])]))
      = Inr \<lparr>tests = [t],
             hooks = [(''beforeAll'', []), (''beforeEach'', []), (''afterAll'', []), (''afterEach'', [])]\<rparr>)"
proof (intro conjI impI)
  assume a: "findTests (Some root) = Inr r \<and> hook \<in> set SUPPORTED_HOOKS"
  then show "map fst (hooks r) = SUPPORTED_HOOKS"
    using findTests_keys by blast
  from a show "\<exists>hs. map_of (hooks r) hook = Some hs
           \<and> list_all2 hook_of_visit hs
                (filter (\<lambda>(n, a). hook_conditions hook n a) (walk [] root))"
    by (simp add: findTests_buckets)
next
  assume a: "parseCallee (CallExpression s e callee args) = Some name \<and> name \<in> set SUPPORTED_HOOKS
        \<and> (length args \<noteq> 1 \<or> \<not> list_all is_function_literal args
           \<or> list_ex (\<lambda>(m, dotted). isTestIdentifier dotted) (scopeNodes ancestors))"
  then show ignored: "visit_call (CallExpression s e callee args) ancestors = Inr Ignored"
    using malformed_hook_ignored hook_in_test_ignored by blast
  then show "test_visitor (CallExpression s e callee args) ancestors st = Inr st"
    by (simp add: test_visitor_def)
qed (rule top_level_hook_example, rule hook_in_test_example)

text \<open>
  The call \<^verbatim>\<open>beforeEach(() => {})\<close> as a whole file is recorded in its bucket; the
  call \<^verbatim>\<open>beforeEach()\<close> is ignored.
\<close>

theorem hook_classification_witness:
  "findTests (Some (Program 0 20 [ExpressionStatement 0 20
      (CallExpression 0 20 (Identifier 0 10 ''beforeEach'')
         [ArrowFunctionExpression 11 19 [] (BlockStatement 17 19 []) False])]))
     = Inr \<lparr>tests = [],
            hooks =
              [(''beforeAll'', []),
               (''beforeEach'',
                [\<lparr>tc_scope = [], tc_start = 0, tc_end = 20, tc_async = Some False,
                   tc_funcStart = 11, tc_funcEnd = 19, tc_calls = [], tc_skip = False,
                   tc_only = False, tc_iosOnly = False, tc_androidOnly = False\<rparr>]),
               (''afterAll'', []), (''afterEach'', [])]\<rparr>
   \<and> ''beforeEach'' \<in> set SUPPORTED_HOOKS
   \<and> filter (\<lambda>(n, a). hook_conditions ''beforeEach'' n a)
        (walk [] (Program 0 20 [ExpressionStatement 0 20
           (CallExpression 0 20 (Identifier 0 10 ''beforeEach'')
              [ArrowFunctionExpression 11 19 [] (BlockStatement 17 19 []) False])]))
      = [(CallExpression 0 20 (Identifier 0 10 ''beforeEach'')
            [ArrowFunctionExpression 11 19 [] (BlockStatement 17 19 []) False],
          [Program 0 20 [ExpressionStatement 0 20
             (CallExpression 0 20 (Identifier 0 10 ''beforeEach'')
                [ArrowFunctionExpression 11 19 [] (BlockStatement 17 19 []) False])],
           ExpressionStatement 0 20
             (CallExpression 0 20 (Identifier 0 10 ''beforeEach'')
                [ArrowFunctionExpression 11 19 [] (BlockStatement 17 19 []) False]),
           CallExpression 0 20 (Identifier 0 10 ''beforeEach'')
             [ArrowFunctionExpression 11 19 [] (BlockStatement 17 19 []) False]])]
   \<and> list_all2 hook_of_visit
        [\<lparr>tc_scope = [], tc_start = 0, tc_end = 20, tc_async = Some False,
           tc_funcStart = 11, tc_funcEnd = 19, tc_calls = [], tc_skip = False,
           tc_only = False, tc_iosOnly = False, tc_androidOnly = False\<rparr>]
        (filter (\<lambda>(n, a). hook_conditions ''beforeEach'' n a)
           (walk [] (Program 0 20 [ExpressionStatement 0 20
              (CallExpression 0 20 (Identifier 0 10 ''beforeEach'')
                 [ArrowFunctionExpression 11 19 [] (BlockStatement 17 19 []) False])])))
   \<and> parseCallee (CallExpression 0 12 (Identifier 0 10 ''beforeEach'') []) = Some ''beforeEach''
   \<and> length ([] :: node list) \<noteq> 1
   \<and> visit_call (CallExpression 0 12 (Identifier 0 10 ''beforeEach'') [])
       [CallExpression 0 12 (Identifier 0 10 ''beforeEach'') []] = Inr Ignored"
proof -
  let ?call = "CallExpression 0 20 (Identifier 0 10 ''beforeEach'')
          [ArrowFunctionExpression 11 19 [] (BlockStatement 17 19 []) False]"
  let ?root = "Program 0 20 [ExpressionStatement 0 20 ?call]"
  let ?h = "\<lparr>tc_scope = [], tc_start = 0, tc_end = 20, tc_async = Some False,
           tc_funcStart = 11, tc_funcEnd = 19, tc_calls = [], tc_skip = False,
           tc_only = False, tc_iosOnly = False, tc_androidOnly = False\<rparr>"
  let ?r = "\<lparr>tests = [],
            hooks = [(''beforeAll'', []), (''beforeEach'', [?h]), (''afterAll'', []),
                     (''afterEach'', [])]\<rparr>"
  let ?bare = "CallExpression 0 12 (Identifier 0 10 ''beforeEach'') []"
  have returns: "findTests (Some ?root) = Inr ?r"
    by (simp add: tree_eval call_eval test_eval)
  have hook: "''beforeEach'' \<in> set SUPPORTED_HOOKS"
    by (simp add: SUPPORTED_HOOKS_def)
  have visits: "filter (\<lambda>(n, a). hook_conditions ''beforeEach'' n a) (walk [] ?root)
      = [(?call, [?root, ExpressionStatement 0 20 ?call, ?call])]"
    by (simp add: hook_conditions_def tree_eval test_eval)
  from hook_classification [where root = ?root and r = ?r and hook = "''beforeEach''", THEN conjunct1]
    returns hook
  have "\<exists>hs. map_of (hooks ?r) ''beforeEach'' = Some hs
      \<and> list_all2 hook_of_visit hs
           (filter (\<lambda>(n, a). hook_conditions ''beforeEach'' n a) (walk [] ?root))"
    by blast
  then have recorded: "list_all2 hook_of_visit [?h]
      (filter (\<lambda>(n, a). hook_conditions ''beforeEach'' n a) (walk [] ?root))"
    by simp
  have name: "parseCallee ?bare = Some ''beforeEach''"
    by (simp add: parseCallee_def)
  have arity: "length ([] :: node list) \<noteq> 1"
    by simp
  from hook_classification [where ancestors = "[?bare]" and name = "''beforeEach''" and s = 0 and e = 12
      and callee = "Identifier 0 10 ''beforeEach''" and args = "[]",
      THEN conjunct2, THEN conjunct1]
    name hook arity
  have ignored: "visit_call ?bare [?bare] = Inr Ignored"
    by simp
  from returns hook visits recorded name arity ignored show ?thesis
    by (intro conjI)
qed

text \<open>
  \<^verbatim>\<open>beforeEach(() => { f([,]) })\<close>: the call meets the conditions of a hook, yet
  nothing is recorded, because collecting the calls of its function throws on the hole of
  the array literal.
\<close>

theorem hook_classification_counterexample:
  "hook_conditions ''beforeEach''
     (CallExpression 0 28 (Identifier 0 10 ''beforeEach'')
        [ArrowFunctionExpression 11 27 []
           (BlockStatement 17 27 [ExpressionStatement 19 25
              (CallExpression 19 25 (Identifier 19 20 ''f'') [ArrayExpression 21 24 [None]])])
           False])
     [Program 0 28 [ExpressionStatement 0 28
        (CallExpression 0 28 (Identifier 0 10 ''beforeEach'')
           [ArrowFunctionExpression 11 27 []
              (BlockStatement 17 27 [ExpressionStatement 19 25
                 (CallExpression 19 25 (Identifier 19 20 ''f'') [ArrayExpression 21 24 [None]])])
              False])],
      ExpressionStatement 0 28
        (CallExpression 0 28 (Identifier 0 10 ''beforeEach'')
           [ArrowFunctionExpression 11 27 []
              (BlockStatement 17 27 [ExpressionStatement 19 25
                 (CallExpression 19 25 (Identifier 19 20 ''f'') [ArrayExpression 21 24 [None]])])
              False]),
      CallExpression 0 28 (Identifier 0 10 ''beforeEach'')
        [ArrowFunctionExpression 11 27 []
           (BlockStatement 17 27 [ExpressionStatement 19 25
              (CallExpression 19 25 (Identifier 19 20 ''f'') [ArrayExpression 21 24 [None]])])
           False]]
   \<and> findTests (Some (Program 0 28 [ExpressionStatement 0 28
        (CallExpression 0 28 (Identifier 0 10 ''beforeEach'')
           [ArrowFunctionExpression 11 27 []
              (BlockStatement 17 27 [ExpressionStatement 19 25
                 (CallExpression 19 25 (Identifier 19 20 ''f'') [ArrayExpression 21 24 [None]])])
              False])])) = Inl TypeError"
  by (simp add: hook_conditions_def tree_eval call_eval test_eval)

section \<open>A function exported in a declaration of several constants\<close>

lemma hasArrowFuncDeclaration_wf:
  "list_all declarator_with_init ds \<Longrightarrow> hasArrowFuncDeclaration ds = Inr (list_ex arrow_declarator ds)"
proof (induction ds)
  case Nil
  then show ?case by simp
next
  case (Cons d ds)
  from Cons.prems obtain s e ident init where d: "d = VariableDeclarator s e ident (Some init)"
    by (cases d) (auto simp: declarator_with_init_def split: option.splits)
  with Cons show ?case
    by (cases init) (simp_all add: arrow_declarator_def)
qed

lemma hasIdentMatching_wf:
  "list_all declarator_with_init ds \<Longrightarrow> hasIdentMatching x ds = Inr (list_ex (declarator_named x) ds)"
proof (induction ds)
  case Nil
  then show ?case by simp
next
  case (Cons d ds)
  from Cons.prems obtain s e ident init where d: "d = VariableDeclarator s e ident init"
    by (cases d) (auto simp: declarator_with_init_def)
  with Cons show ?case
    by (simp add: declarator_named_def)
qed

lemma maybeRegister_multi:
  assumes "list_all declarator_with_init ds" and "list_ex arrow_declarator ds"
    and "export \<noteq> None \<or> (case defaultExportedIdentifier body of
             None \<Rightarrow> False
           | Some x \<Rightarrow> x \<noteq> [] \<and> list_ex (declarator_named x) ds)"
    and "ds = d1 # d2 # rest"
  shows "maybeRegisterVariableDeclarations body (VariableDeclaration s e kind ds) export s' e' fs
           = Inl (ParseLimitationsError multi_declaration_message (nstart d2))"
proof -
  note arrow = hasArrowFuncDeclaration_wf [OF assms(1)]
  show ?thesis
  proof (cases "defaultExportedIdentifier body")
    case None
    with assms(2,3,4) arrow show ?thesis
      by (simp add: maybeRegisterVariableDeclarations_def)
  next
    case (Some x)
    with assms(2,3,4) arrow hasIdentMatching_wf [OF assms(1), of x] show ?thesis
      by (auto simp: maybeRegisterVariableDeclarations_def)
  qed
qed

lemma exported_statement_multi:
  assumes "exported_const body stmt ds" and "list_all declarator_with_init ds"
    and "list_ex arrow_declarator ds" and "ds = d1 # d2 # rest"
  shows "exported_statement body stmt fs
           = Inl (ParseLimitationsError multi_declaration_message (nstart d2))"
proof (cases stmt)
  case (ExportNamedDeclaration s e decl)
  with assms(1) obtain s' e' where "decl = Some (VariableDeclaration s' e' ''const'' ds)"
    by (auto simp: exported_const_def split: option.splits node.splits)
  with ExportNamedDeclaration show ?thesis
    by (simp add: exported_statement_def maybeRegister_multi [OF assms(2,3) _ assms(4)])
next
  case (VariableDeclaration s e kind ds')
  with assms(1) have "kind = ''const''" "ds' = ds"
    and "case defaultExportedIdentifier body of
             None \<Rightarrow> False
           | Some x \<Rightarrow> x \<noteq> [] \<and> list_ex (declarator_named x) ds"
    by (simp_all add: exported_const_def)
  with VariableDeclaration show ?thesis
    by (simp add: exported_statement_def maybeRegister_multi [OF assms(2,3) _ assms(4)])
qed (use assms(1) in \<open>simp_all add: exported_const_def\<close>)

lemma exported_statements_append:
  "exported_statements body (xs @ ys) fs =
     (case exported_statements body xs fs of
        Inl err \<Rightarrow> Inl err
      | Inr fs' \<Rightarrow> exported_statements body ys fs')"
  by (induction xs arbitrary: fs) (auto split: sum.splits)

text \<open>
  Claim C7, as the code has it. Let one of the top-level statements of a file be a
  \<^verbatim>\<open>const\<close> declaration with more than one declarator, one of them initialized with
  an arrow function, exported directly or through the identifier of the default export.
  Then \<^verbatim>\<open>findExportedFunc\<close> returns no functions for the file: it fails with the
  failure of the first statement before that declaration that fails, and, when the
  statements before it are processed without failure, at the declaration itself with the
  \<^verbatim>\<open>ParseLimitationsError\<close> whose \<^verbatim>\<open>atChar\<close> is the start of its second
  declarator.
\<close>

theorem multi_declarator_export_fatal:
  assumes "body = pre @ stmt # post"
    and "exported_const body stmt declarations"
    and "list_all declarator_with_init declarations"
    and "list_ex arrow_declarator declarations"
    and "1 < length declarations"
  shows "findExportedFunc (Some (Program s e body)) =
      (case exported_statements body pre [] of
         Inl err \<Rightarrow> Inl err
       | Inr fs \<Rightarrow>
           Inl (ParseLimitationsError multi_declaration_message (nstart (declarations ! 1))))
    \<and> isl (findExportedFunc (Some (Program s e body)))
    \<and> (\<not> isl (exported_statements body pre []) \<longrightarrow>
         findExportedFunc (Some (Program s e body))
           = Inl (ParseLimitationsError multi_declaration_message (nstart (declarations ! 1))))"
proof -
  from assms(5) obtain d1 d2 rest where ds: "declarations = d1 # d2 # rest"
    by (cases declarations; cases "tl declarations") auto
  have stmt: "\<And>fs. exported_statement body stmt fs
      = Inl (ParseLimitationsError multi_declaration_message (nstart d2))"
    by (rule exported_statement_multi [OF assms(2,3,4) ds])
  have "exported_statements body (pre @ stmt # post) [] =
     (case exported_statements body pre [] of
        Inl err \<Rightarrow> Inl err
      | Inr fs \<Rightarrow> Inl (ParseLimitationsError multi_declaration_message (nstart d2)))"
    by (simp add: exported_statements_append stmt split: sum.splits)
  with assms(1) have run: "findExportedFunc (Some (Program s e body)) =
     (case exported_statements body pre [] of
        Inl err \<Rightarrow> Inl err
      | Inr fs \<Rightarrow> Inl (ParseLimitationsError multi_declaration_message (nstart d2)))"
    by (simp add: findExportedFunc_def)
  with ds show ?thesis
    by (auto split: sum.splits)
qed

text \<open>
  The files \<^verbatim>\<open>export function f() {}\<close> followed by
  \<^verbatim>\<open>export const a = x, b = () => {}\<close>, and
  \<^verbatim>\<open>const a = 1, b = () => {}; export default a;\<close>.
\<close>

theorem multi_declarator_export_fatal_witness:
  "exported_const
     [ExportNamedDeclaration 0 22 (Some (FunctionDeclaration 7 22 (Some (Identifier 16 17 ''f'')) []
        (BlockStatement 20 22 []) False)),
      ExportNamedDeclaration 23 55 (Some (VariableDeclaration 30 55 ''const''
        [VariableDeclarator 36 41 (Identifier 36 37 ''a'') (Some (Identifier 40 41 ''x'')),
         VariableDeclarator 43 55 (Identifier 43 44 ''b'')
           (Some (ArrowFunctionExpression 47 55 [] (BlockStatement 53 55 []) False))]))]
     (ExportNamedDeclaration 23 55 (Some (VariableDeclaration 30 55 ''const''
        [VariableDeclarator 36 41 (Identifier 36 37 ''a'') (Some (Identifier 40 41 ''x'')),
         VariableDeclarator 43 55 (Identifier 43 44 ''b'')
           (Some (ArrowFunctionExpression 47 55 [] (BlockStatement 53 55 []) False))])))
     [VariableDeclarator 36 41 (Identifier 36 37 ''a'') (Some (Identifier 40 41 ''x'')),
      VariableDeclarator 43 55 (Identifier 43 44 ''b'')
        (Some (ArrowFunctionExpression 47 55 [] (BlockStatement 53 55 []) False))]
   \<and> \<not> isl (exported_statements
       [ExportNamedDeclaration 0 22 (Some (FunctionDeclaration 7 22 (Some (Identifier 16 17 ''f'')) []
          (BlockStatement 20 22 []) False)),
        ExportNamedDeclaration 23 55 (Some (VariableDeclaration 30 55 ''const''
          [VariableDeclarator 36 41 (Identifier 36 37 ''a'') (Some (Identifier 40 41 ''x'')),
           VariableDeclarator 43 55 (Identifier 43 44 ''b'')
             (Some (ArrowFunctionExpression 47 55 [] (BlockStatement 53 55 []) False))]))]
       [ExportNamedDeclaration 0 22 (Some (FunctionDeclaration 7 22 (Some (Identifier 16 17 ''f'')) []
          (BlockStatement 20 22 []) False))]
       [])
   \<and> findExportedFunc (Some (Program 0 55
       [ExportNamedDeclaration 0 22 (Some (FunctionDeclaration 7 22 (Some (Identifier 16 17 ''f'')) []
          (BlockStatement 20 22 []) False)),
        ExportNamedDeclaration 23 55 (Some (VariableDeclaration 30 55 ''const''
          [VariableDeclarator 36 41 (Identifier 36 37 ''a'') (Some (Identifier 40 41 ''x'')),
           VariableDeclarator 43 55 (Identifier 43 44 ''b'')
             (Some (ArrowFunctionExpression 47 55 [] (BlockStatement 53 55 []) False))]))]))
     = Inl (ParseLimitationsError multi_declaration_message 43)
   \<and> exported_const
     [VariableDeclaration 0 26 ''const''
        [VariableDeclarator 6 11 (Identifier 6 7 ''a'') (Some (Literal 10 11 (LNumber ''1''))),
         VariableDeclarator 13 25 (Identifier 13 14 ''b'')
           (Some (ArrowFunctionExpression 17 25 [] (BlockStatement 23 25 []) False))],
      ExportDefaultDeclaration 27 44 (Identifier 42 43 ''a'')]
     (VariableDeclaration 0 26 ''const''
        [VariableDeclarator 6 11 (Identifier 6 7 ''a'') (Some (Literal 10 11 (LNumber ''1''))),
         VariableDeclarator 13 25 (Identifier 13 14 ''b'')
           (Some (ArrowFunctionExpression 17 25 [] (BlockStatement 23 25 []) False))])
     [VariableDeclarator 6 11 (Identifier 6 7 ''a'') (Some (Literal 10 11 (LNumber ''1''))),
      VariableDeclarator 13 25 (Identifier 13 14 ''b'')
        (Some (ArrowFunctionExpression 17 25 [] (BlockStatement 23 25 []) False))]
   \<and> findExportedFunc (Some (Program 0 44
       [VariableDeclaration 0 26 ''const''
          [VariableDeclarator 6 11 (Identifier 6 7 ''a'') (Some (Literal 10 11 (LNumber ''1''))),
           VariableDeclarator 13 25 (Identifier 13 14 ''b'')
             (Some (ArrowFunctionExpression 17 25 [] (BlockStatement 23 25 []) False))],
        ExportDefaultDeclaration 27 44 (Identifier 42 43 ''a'')]))
     = Inl (ParseLimitationsError multi_declaration_message 13)"
proof -
  let ?ds = "[VariableDeclarator 36 41 (Identifier 36 37 ''a'') (Some (Identifier 40 41 ''x'')),
      VariableDeclarator 43 55 (Identifier 43 44 ''b'')
        (Some (ArrowFunctionExpression 47 55 [] (BlockStatement 53 55 []) False))]"
  let ?f = "ExportNamedDeclaration 0 22 (Some (FunctionDeclaration 7 22
      (Some (Identifier 16 17 ''f'')) [] (BlockStatement 20 22 []) False))"
  let ?stmt = "ExportNamedDeclaration 23 55 (Some (VariableDeclaration 30 55 ''const'' ?ds))"
  have body: "[?f, ?stmt] = [?f] @ ?stmt # []" by simp
  have exported: "exported_const [?f, ?stmt] ?stmt ?ds" by (simp add: exported_const_def)
  have wf: "list_all declarator_with_init ?ds" by (simp add: declarator_with_init_def)
  have arrow: "list_ex arrow_declarator ?ds" by (simp add: arrow_declarator_def)
  have multi: "1 < length ?ds" by simp
  have before: "\<not> isl (exported_statements [?f, ?stmt] [?f] [])"
    by (simp add: exported_statement_def registerExportedFuncNode_def tree_eval call_eval)
  from multi_declarator_export_fatal [OF body exported wf arrow multi, of 0 55] before
  have "findExportedFunc (Some (Program 0 55 [?f, ?stmt]))
      = Inl (ParseLimitationsError multi_declaration_message (nstart (?ds ! 1)))"
    by blast
  then have direct: "findExportedFunc (Some (Program 0 55 [?f, ?stmt]))
      = Inl (ParseLimitationsError multi_declaration_message 43)"
    by simp
  let ?ds' = "[VariableDeclarator 6 11 (Identifier 6 7 ''a'') (Some (Literal 10 11 (LNumber ''1''))),
      VariableDeclarator 13 25 (Identifier 13 14 ''b'')
        (Some (ArrowFunctionExpression 17 25 [] (BlockStatement 23 25 []) False))]"
  let ?stmt' = "VariableDeclaration 0 26 ''const'' ?ds'"
  let ?dflt = "ExportDefaultDeclaration 27 44 (Identifier 42 43 ''a'')"
  have body': "[?stmt', ?dflt] = [] @ ?stmt' # [?dflt]" by simp
  have exported': "exported_const [?stmt', ?dflt] ?stmt' ?ds'"
    by (simp add: exported_const_def defaultExportedIdentifier_def exportDefaultDeclaration_def
        declarator_named_def node_name_def)
  have wf': "list_all declarator_with_init ?ds'" by (simp add: declarator_with_init_def)
  have arrow': "list_ex arrow_declarator ?ds'" by (simp add: arrow_declarator_def)
  have multi': "1 < length ?ds'" by simp
  from multi_declarator_export_fatal [OF body' exported' wf' arrow' multi', of 0 44]
  have dflt: "findExportedFunc (Some (Program 0 44 [?stmt', ?dflt]))
      = Inl (ParseLimitationsError multi_declaration_message 13)"
    by simp
  from exported before direct exported' dflt show ?thesis
    by (intro conjI)
qed

text \<open>
  \<^verbatim>\<open>export function f() { g([,]) }\<close> followed by
  \<^verbatim>\<open>export const a = x, b = () => {}\<close>: the failure is the \<^verbatim>\<open>TypeError\<close> of the
  first statement, not the \<^verbatim>\<open>ParseLimitationsError\<close> of the declaration.
\<close>

theorem multi_declarator_export_counterexample:
  "findExportedFunc (Some (Program 0 63
     [ExportNamedDeclaration 0 30 (Some (FunctionDeclaration 7 30 (Some (Identifier 16 17 ''f'')) []
        (BlockStatement 20 30 [ExpressionStatement 22 28
           (CallExpression 22 28 (Identifier 22 23 ''g'') [ArrayExpression 24 27 [None]])])
        False)),
      ExportNamedDeclaration 31 63 (Some (VariableDeclaration 38 63 ''const''
        [VariableDeclarator 44 49 (Identifier 44 45 ''a'') (Some (Identifier 48 49 ''x'')),
         VariableDeclarator 51 63 (Identifier 51 52 ''b'')
           (Some (ArrowFunctionExpression 55 63 [] (BlockStatement 61 63 []) False))]))]))
   = Inl TypeError"
  by (simp add: findExportedFunc_def exported_statement_def registerExportedFuncNode_def
      tree_eval call_eval)

section \<open>The keys of the hooks\<close>

text \<open>
  Claim C8 against the code. Whatever the tree, the hooks of a result of \<^verbatim>\<open>findTests\<close>
  are keyed by \<^verbatim>\<open>beforeAll\<close>, \<^verbatim>\<open>beforeEach\<close>, \<^verbatim>\<open>afterAll\<close> and \<^verbatim>\<open>afterEach\<close>, in
  this order: the names \<^verbatim>\<open>before\<close> and \<^verbatim>\<open>after\<close> never appear.
\<close>

theorem hook_bucket_keys:
  "(case findTests ast of
      Inl err \<Rightarrow> True
    | Inr r \<Rightarrow> map fst (hooks r) = [''beforeAll'', ''beforeEach'', ''afterAll'', ''afterEach''])"
proof (cases "findTests ast")
  case (Inl err)
  then show ?thesis by simp
next
  case (Inr r)
  let ?st = "\<lparr>tests = [], hooks = map (\<lambda>hook. (hook, [])) SUPPORTED_HOOKS\<rparr>"
  have "map fst (hooks r) = map fst (hooks ?st)"
  proof (cases ast)
    case None
    with Inr show ?thesis by (simp add: findTests_def)
  next
    case (Some root)
    with Inr have run: "run_visits test_visitor (walk [] root) ?st = Inr r"
      by (simp add: findTests_def)
    show ?thesis
      by (rule run_visits_invariant
          [where f = test_visitor and Q = "\<lambda>n a. True"
            and I = "\<lambda>st. map fst (hooks st) = map fst (hooks ?st)", OF _ _ _ run])
        (auto dest: test_visitor_keys)
  qed
  with Inr show ?thesis by (simp add: SUPPORTED_HOOKS_def comp_def)
qed

section \<open>No tree\<close>

text \<open>
  Claim C9 against the code. On the \<^verbatim>\<open>null\<close> that stands for a script with a shebang
  \<^verbatim>\<open>findTests\<close> returns no test and four empty buckets, while \<^verbatim>\<open>findExportedFunc\<close>
  throws a \<^verbatim>\<open>TypeError\<close>.
\<close>

theorem no_tree_results:
  "findTests None =
     Inr \<lparr>tests = [],
          hooks = [(''beforeAll'', []), (''beforeEach'', []), (''afterAll'', []), (''afterEach'', [])]\<rparr>
   \<and> findExportedFunc None = Inl TypeError"
  by (simp add: findTests_def findExportedFunc_def SUPPORTED_HOOKS_def)

end
